theory Spec2Isabelle
  imports Main "HOL-Library.Multiset" "HOL-Library.Word"
begin

section \<open>Values of the JavaScript runtime\<close>

text \<open>
  The console's views are React components written in TypeScript. This part fixes the
  values of the runtime that the views compute with.

  \<^item> \<open>js_number\<close>: what \<^verbatim>\<open>new Date(s).getTime()\<close> returns, an integral number of
    milliseconds or \<open>NaN\<close> for a text that is no date.
  \<^item> \<open>js_text\<close>: text typed by the user, as UTF-16 code units, since
    \<^verbatim>\<open>String.prototype.trim\<close> strips more than the ASCII blanks.
  \<^item> identifiers and names coming from the backends are \<open>string\<close>s.
  \<^item> a rejected promise or a thrown exception is a \<open>js_error\<close>; a response of a backend
    is a value of \<open>js_error + 'a\<close>.
\<close>

datatype js_number = Num int | NaN

type_synonym js_text = "16 word list"

datatype js_error = Js_error string

text \<open>
  Subtraction of two time values. Time values are integers of magnitude at most
  \<open>8.64 * 10^15\<close>, so the double-precision difference of two of them has the sign of
  the exact difference, which is all a comparator's caller reads; \<open>NaN\<close> is absorbing.
\<close>

fun js_minus :: "js_number \<Rightarrow> js_number \<Rightarrow> js_number" where
  "js_minus (Num a) (Num b) = Num (a - b)"
| "js_minus _ _ = NaN"

text \<open>
  \<^verbatim>\<open>Array.prototype.sort(cmp)\<close>. ECMAScript's SortCompare turns a comparator result
  \<open>NaN\<close> into \<open>+0\<close> and asks for a stable sort: an element moves behind another only
  when the comparator says it is greater. The model is the stable insertion sort, which
  is the list every conforming engine returns when the comparator is a consistent
  ordering; with \<open>NaN\<close> results the standard leaves the order to the engine.
\<close>

definition SortCompare :: "('a \<Rightarrow> 'a \<Rightarrow> js_number) \<Rightarrow> 'a \<Rightarrow> 'a \<Rightarrow> int" where
  "SortCompare cmp x y = (case cmp x y of NaN \<Rightarrow> 0 | Num v \<Rightarrow> v)"

fun js_insert :: "('a \<Rightarrow> 'a \<Rightarrow> js_number) \<Rightarrow> 'a \<Rightarrow> 'a list \<Rightarrow> 'a list" where
  "js_insert cmp x [] = [x]"
| "js_insert cmp x (y # ys) =
     (if 0 < SortCompare cmp x y then y # js_insert cmp x ys else x # y # ys)"

definition js_sort :: "('a \<Rightarrow> 'a \<Rightarrow> js_number) \<Rightarrow> 'a list \<Rightarrow> 'a list" where
  "js_sort cmp xs = foldr (js_insert cmp) xs []"

text \<open>
  \<^verbatim>\<open>Promise.all([p1, p2])\<close>: rejected with the first rejection, fulfilled with both
  values otherwise.
\<close>

fun Promise_all :: "js_error + 'a \<Rightarrow> js_error + 'b \<Rightarrow> js_error + ('a \<times> 'b)" where
  "Promise_all (Inl e) _ = Inl e"
| "Promise_all (Inr a) (Inl e) = Inl e"
| "Promise_all (Inr a) (Inr b) = Inr (a, b)"

text \<open>
  The whitespace of \<^verbatim>\<open>String.prototype.trim\<close>: ECMAScript's WhiteSpace and
  LineTerminator code points (TAB, LF, VT, FF, CR, SP, NBSP, the Unicode space
  separators, LS, PS and the byte order mark).
\<close>

definition js_whitespace :: "16 word \<Rightarrow> bool" where
  "js_whitespace c =
     (c = 0x0009 \<or> c = 0x000A \<or> c = 0x000B \<or> c = 0x000C \<or> c = 0x000D \<or> c = 0x0020 \<or>
      c = 0x00A0 \<or> c = 0x1680 \<or> (0x2000 \<le> c \<and> c \<le> 0x200A) \<or> c = 0x2028 \<or>
      c = 0x2029 \<or> c = 0x202F \<or> c = 0x205F \<or> c = 0x3000 \<or> c = 0xFEFF)"

definition trim :: "js_text \<Rightarrow> js_text" where
  "trim s = rev (dropWhile js_whitespace (rev (dropWhile js_whitespace s)))"

section \<open>Records of the backends\<close>

text \<open>
  The declarations of \<^verbatim>\<open>WxAccount\<close>, \<^verbatim>\<open>RoomListMessage\<close> and \<^verbatim>\<open>ChatMessage\<close> live in
  the API modules; the records below hold the fields the views read. A field that may
  be \<^verbatim>\<open>null\<close> is an option. The field \<open>msg_datetime\<close> holds the time value that
  \<^verbatim>\<open>new Date(msg_datetime).getTime()\<close> reads from the text, the only way the views use
  it. Fields of \<open>RoomListMessage\<close> that share a name with a field of \<open>ChatMessage\<close>
  carry the prefix \<open>rl_\<close>.
\<close>

record WxAccount =
  wxid :: string
  name :: string
  source_ip :: string

record RoomListMessage =
  room_id :: string
  room_name :: "string option"
  rl_sender_name :: "string option"
  rl_msg_datetime :: js_number
  is_group :: bool

record ChatMessage =
  msg_id :: string
  content :: "js_text option"
  msg_datetime :: js_number
  sender_id :: string
  sender_name :: "string option"
  msg_type :: "int option"

text \<open>The display record of a chat message (\<^verbatim>\<open>interface Message\<close> of dialogPage.tsx).\<close>

record Message =
  id' :: string
  msg_content :: js_text
  timestamp :: js_number
  isUser :: bool
  senderName :: string
  msgType :: "int option"

text \<open>
  What \<^verbatim>\<open>JSON.parse\<close> returns. A number is kept as its literal; the views only ever
  compare a parsed value with a room id, which is a string.
\<close>

datatype json =
    JNull
  | JBool bool
  | JNumber string
  | JString string
  | JArray "json list"
  | JObject "(string \<times> json) list"

text \<open>
  The value of the AI-reply variable as \<^verbatim>\<open>JSON.parse(aiResponse.value)\<close> reads it: a
  JSON value, or a text on which \<^verbatim>\<open>JSON.parse\<close> throws.
\<close>

datatype ai_reply_value = Parsed json | Unparsable

text \<open>
  What the ref \<^verbatim>\<open>enabledRoomsRef\<close> can hold once a handler has run: an array, or a text
  when the variable was a JSON string. Every other parsed value is replaced by the
  empty array before the handler ends.
\<close>

datatype rooms_ref = Room_list "json list" | Room_text string

text \<open>
  \<^verbatim>\<open>[...ref]\<close>: the elements of an array, the characters of a text as one-character
  strings.
\<close>

fun spread :: "rooms_ref \<Rightarrow> json list" where
  "spread (Room_list rooms) = rooms"
| "spread (Room_text s) = map (\<lambda>ch. JString [ch]) s"

text \<open>\<^verbatim>\<open>String.prototype.includes\<close>: the second text occurs somewhere in the first.\<close>

fun text_includes :: "string \<Rightarrow> string \<Rightarrow> bool" where
  "text_includes [] r = (r = [])"
| "text_includes (ch # s) r = (take (length r) (ch # s) = r \<or> text_includes s r)"

section \<open>Requests, timers and the console\<close>

text \<open>
  What a handler asks of its environment, in the order it asks: HTTP requests through
  the API modules, timers, and lines on the console. A handler that awaits is split at
  each \<^verbatim>\<open>await\<close>: the part before it returns the new state and the requests it issued,
  the part after it takes the response. Values that a closure captured before the
  \<^verbatim>\<open>await\<close> are arguments of the later part.
\<close>

record send_conf =
  conf_content :: js_text
  conf_source_ip :: string
  conf_room_id :: string
  conf_sender :: string
  conf_msg_type :: int
  conf_is_self :: bool
  conf_is_group :: bool

record send_request =
  conf :: send_conf
  dag_run_id :: string
  data_interval_end :: string
  data_interval_start :: string
  logical_date :: string
  note' :: string

datatype api_call =
    GetWxAccountList
  | GetUserMsgCount string
  | GetRoomListMessages string
  | GetRoomMpListMessages string
  | GetAIReplyList string string
  | PostAIReplyList string string "json list"
  | GetChatMessages string string
  | GetChatMpMessages string string
  | SendChatMessage send_request
  | GetWxAccountPrompt string string
  | LogoutUser

datatype task = PollMessageCount | RefreshMessages string string

datatype effect =
    Request api_call
  | SetTimeout nat task
  | SetInterval nat task
  | ClearInterval
  | Navigate string
  | Console_error string

section \<open>The dialog view (dialog.tsx)\<close>

record ApiCustomerInfo =
  ci_name :: "string option"
  ci_age :: "string option"
  ci_gender :: "string option"
  ci_region :: "string option"
  ci_contact :: "string option"

text \<open>
  The hooks of \<^verbatim>\<open>Dialog\<close>. Its flag \<^verbatim>\<open>isLoading\<close> carries the prefix \<open>dlg_\<close>, the message
  pane has a flag of the same name. \<open>pollingInterval\<close> says whether the ref of line 27
  holds a timer.
\<close>

record Dialog_state =
  conversations :: "RoomListMessage list"
  wxAccountList :: "WxAccount list"
  selectedConversation :: "RoomListMessage option"
  selectedAccount :: "WxAccount option"
  showAIDropdown :: "string \<rightharpoonup> bool"
  messageCount :: string
  customerInfo :: "ApiCustomerInfo option"
  dlg_isLoading :: bool
  isLoadingConversations :: bool
  pollingInterval :: bool

text \<open>The state of the first render: the initial values of the hooks.\<close>

definition Dialog_init :: Dialog_state where
  "Dialog_init =
     \<lparr>conversations = [], wxAccountList = [], selectedConversation = None,
      selectedAccount = None, showAIDropdown = Map.empty, messageCount = [],
      customerInfo = None, dlg_isLoading = True, isLoadingConversations = False,
      pollingInterval = False\<rparr>"

subsection \<open>getConversations\<close>

text \<open>The comparator of line 45: newest first.\<close>

definition newest_first_cmp :: "RoomListMessage \<Rightarrow> RoomListMessage \<Rightarrow> js_number" where
  "newest_first_cmp a b = js_minus (rl_msg_datetime b) (rl_msg_datetime a)"

definition merge_conversations ::
  "RoomListMessage list \<Rightarrow> RoomListMessage list \<Rightarrow> RoomListMessage list" where
  "merge_conversations data1 data2 = js_sort newest_first_cmp (data1 @ data2)"

text \<open>
  The part before the \<^verbatim>\<open>await\<close>: nothing without a selected account, else the two room
  list requests. \<open>acct\<close> is the account the closure captured.
\<close>

definition getConversations_begin :: "WxAccount option \<Rightarrow> effect list" where
  "getConversations_begin acct =
     (case acct of
        None \<Rightarrow> []
      | Some a \<Rightarrow> [Request (GetRoomListMessages (wxid a)),
                   Request (GetRoomMpListMessages (wxid a))])"

text \<open>The part after it: \<^verbatim>\<open>try\<close>, \<^verbatim>\<open>catch\<close> and \<^verbatim>\<open>finally\<close>.\<close>

definition getConversations_resume ::
  "Dialog_state \<Rightarrow> js_error + RoomListMessage list \<Rightarrow> js_error + RoomListMessage list
     \<Rightarrow> Dialog_state \<times> effect list" where
  "getConversations_resume st response1 response2 =
     (case Promise_all response1 response2 of
        Inr (data1, data2) \<Rightarrow>
          (st\<lparr>conversations := merge_conversations data1 data2,
              isLoadingConversations := False\<rparr>, [])
      | Inl e \<Rightarrow>
          (st\<lparr>isLoadingConversations := False\<rparr>,
           [Console_error ''Error fetching conversations:'']))"

subsection \<open>The account list\<close>

text \<open>\<^verbatim>\<open>fetchWxAccounts\<close>, run once by the effect of lines 56 to 69.\<close>

definition fetchWxAccounts_begin :: "Dialog_state \<Rightarrow> Dialog_state \<times> effect list" where
  "fetchWxAccounts_begin st = (st\<lparr>dlg_isLoading := True\<rparr>, [Request GetWxAccountList])"

definition fetchWxAccounts_resume ::
  "Dialog_state \<Rightarrow> js_error + WxAccount list \<Rightarrow> Dialog_state \<times> effect list" where
  "fetchWxAccounts_resume st response =
     (case response of
        Inr accounts \<Rightarrow> (st\<lparr>wxAccountList := accounts, dlg_isLoading := False\<rparr>, [])
      | Inl e \<Rightarrow> (st\<lparr>dlg_isLoading := False\<rparr>, [Console_error ''Failed to fetch wx accounts:'']))"

text \<open>
  The click handlers of the account selector: the account button (lines 126 to 130),
  the AI button (lines 134 to 140, where \<^verbatim>\<open>!prev[wxid]\<close> of a missing key is true) and
  the two entries of the dropdown, which only close it.
\<close>

definition selectAccount :: "Dialog_state \<Rightarrow> WxAccount \<Rightarrow> Dialog_state" where
  "selectAccount st account =
     st\<lparr>selectedAccount := Some account, isLoadingConversations := True, conversations := []\<rparr>"

definition toggleAIDropdown :: "Dialog_state \<Rightarrow> WxAccount \<Rightarrow> Dialog_state" where
  "toggleAIDropdown st account =
     st\<lparr>showAIDropdown :=
          (showAIDropdown st)(wxid account \<mapsto> \<not> (showAIDropdown st (wxid account) = Some True))\<rparr>"

definition closeAIDropdown :: "Dialog_state \<Rightarrow> WxAccount \<Rightarrow> Dialog_state" where
  "closeAIDropdown st account =
     st\<lparr>showAIDropdown := (showAIDropdown st)(wxid account \<mapsto> False)\<rparr>"

text \<open>
  What lines 112 to 165 render. Every account of the list becomes one keyed element
  that holds the account's button (with the small AI button nested in it) and, when its
  dropdown is open, the dropdown's two entries.
\<close>

record account_button =
  button_key :: string
  button_label :: string
  button_highlighted :: bool
  button_dropdown_open :: bool

datatype account_selector = Loading_spinner | No_accounts_placeholder | Account_buttons "account_button list"

definition render_account :: "Dialog_state \<Rightarrow> WxAccount \<Rightarrow> account_button" where
  "render_account st account =
     \<lparr>button_key = wxid account,
      button_label = name account,
      button_highlighted =
        (case selectedAccount st of None \<Rightarrow> False | Some s \<Rightarrow> name s = name account),
      button_dropdown_open = (showAIDropdown st (wxid account) = Some True)\<rparr>"

definition render_account_selector :: "Dialog_state \<Rightarrow> account_selector" where
  "render_account_selector st =
     (if dlg_isLoading st then Loading_spinner
      else if length (wxAccountList st) = 0 then No_accounts_placeholder
      else Account_buttons (map (render_account st) (wxAccountList st)))"

subsection \<open>Polling the message count\<close>

text \<open>
  \<^verbatim>\<open>pollMessageCount\<close> (lines 72 to 84). The closure compares the new count with the
  \<open>messageCount\<close> of the render that created it, the argument \<open>captured\<close>.
\<close>

definition pollMessageCount_begin :: "WxAccount option \<Rightarrow> effect list" where
  "pollMessageCount_begin acct =
     (case acct of None \<Rightarrow> [] | Some a \<Rightarrow> [Request (GetUserMsgCount (name a))])"

definition pollMessageCount_resume ::
  "string \<Rightarrow> Dialog_state \<Rightarrow> js_error + string \<Rightarrow> Dialog_state \<times> effect list" where
  "pollMessageCount_resume captured st response =
     (case response of
        Inr newCount \<Rightarrow> ((if newCount \<noteq> captured then st\<lparr>messageCount := newCount\<rparr> else st), [])
      | Inl e \<Rightarrow> (st, [Console_error ''Error polling message count:'']))"

text \<open>
  The effect of lines 71 to 94, with dependencies \<open>selectedAccount\<close> and
  \<open>messageCount\<close>: its body polls once and starts the interval, its cleanup clears the
  interval when the ref holds one. \<open>pollingInterval\<close> says whether the ref holds a timer.
\<close>

definition poll_effect :: "Dialog_state \<Rightarrow> Dialog_state \<times> effect list" where
  "poll_effect st =
     (case selectedAccount st of
        None \<Rightarrow> (st, [])
      | Some a \<Rightarrow>
          (st\<lparr>pollingInterval := True\<rparr>,
           pollMessageCount_begin (Some a) @ [SetInterval 3000 PollMessageCount]))"

definition poll_cleanup :: "Dialog_state \<Rightarrow> effect list" where
  "poll_cleanup st = (if pollingInterval st then [ClearInterval] else [])"

text \<open>
  The effect of lines 96 to 103, with dependency \<open>messageCount\<close>. A text is truthy when
  it is not empty. The copy of the selected conversation it stores is the same value
  under a new identity, which makes the message pane load again.
\<close>

definition messageCount_effect :: "Dialog_state \<Rightarrow> effect list" where
  "messageCount_effect st =
     (if messageCount st \<noteq> [] \<and> selectedAccount st \<noteq> None
      then getConversations_begin (selectedAccount st) else [])"

text \<open>
  React after a state change from \<open>old\<close> to \<open>new\<close>: the cleanups of the effects whose
  dependencies changed, then their bodies in the order of declaration.
\<close>

definition Dialog_effects :: "Dialog_state \<Rightarrow> Dialog_state \<Rightarrow> Dialog_state \<times> effect list" where
  "Dialog_effects old new =
     (let poll_deps = (selectedAccount new \<noteq> selectedAccount old \<or> messageCount new \<noteq> messageCount old);
          count_deps = (messageCount new \<noteq> messageCount old);
          cleanup = (if poll_deps then poll_cleanup new else []);
          (st1, e1) = (if poll_deps then poll_effect new else (new, []));
          e2 = (if count_deps then messageCount_effect st1 else [])
      in (st1, cleanup @ e1 @ e2))"

text \<open>One answer to a poll, followed by the effects of the render it causes.\<close>

definition poll_answer :: "Dialog_state \<Rightarrow> js_error + string \<Rightarrow> Dialog_state \<times> effect list" where
  "poll_answer st response =
     (let (st1, e1) = pollMessageCount_resume (messageCount st) st response;
          (st2, e2) = Dialog_effects st st1
      in (st2, e1 @ e2))"

text \<open>A click on an account button, followed by the effects of the render it causes.\<close>

definition account_click :: "Dialog_state \<Rightarrow> WxAccount \<Rightarrow> Dialog_state \<times> effect list" where
  "account_click st account = Dialog_effects st (selectAccount st account)"

subsection \<open>Whole handlers\<close>




section \<open>The message pane (dialogPage.tsx)\<close>

text \<open>
  The hooks of \<^verbatim>\<open>DialogPage\<close>; \<open>enabledRoomsRef\<close> is the content of the ref of line 31.
  The props \<^verbatim>\<open>conversation\<close> and \<^verbatim>\<open>selectedAccount\<close> are arguments of the handlers.
\<close>

record DialogPage_state =
  messages :: "Message list"
  isLoading :: bool
  isFetchingHistory :: bool
  newMessage :: js_text
  isAIEnabled :: bool
  isSending :: bool
  enabledRoomsRef :: rooms_ref

definition DialogPage_init :: DialogPage_state where
  "DialogPage_init =
     \<lparr>messages = [], isLoading = False, isFetchingHistory = False, newMessage = [],
      isAIEnabled = True, isSending = False, enabledRoomsRef = Room_list []\<rparr>"

text \<open>\<^verbatim>\<open>selectedAccount?.wxid || ''\<close> and \<^verbatim>\<open>selectedAccount?.name || ''\<close>.\<close>

definition wxid_or_empty :: "WxAccount option \<Rightarrow> string" where
  "wxid_or_empty acct = (case acct of None \<Rightarrow> [] | Some a \<Rightarrow> wxid a)"

definition name_or_empty :: "WxAccount option \<Rightarrow> string" where
  "name_or_empty acct = (case acct of None \<Rightarrow> [] | Some a \<Rightarrow> name a)"

subsection \<open>Merging the two histories\<close>

text \<open>The comparator of lines 83 and 148: oldest first.\<close>

definition oldest_first_cmp :: "ChatMessage \<Rightarrow> ChatMessage \<Rightarrow> js_number" where
  "oldest_first_cmp a b = js_minus (msg_datetime a) (msg_datetime b)"

text \<open>The display record of lines 85 to 92; \<^verbatim>\<open>x || y\<close> takes \<open>y\<close> when \<open>x\<close> is null or empty.\<close>

definition transform :: "WxAccount option \<Rightarrow> ChatMessage \<Rightarrow> Message" where
  "transform acct msg =
     \<lparr>id' = msg_id msg,
      msg_content = (case content msg of None \<Rightarrow> [] | Some c \<Rightarrow> c),
      timestamp = msg_datetime msg,
      isUser = (case acct of None \<Rightarrow> False | Some a \<Rightarrow> sender_id msg = wxid a),
      senderName =
        (case sender_name msg of
           None \<Rightarrow> sender_id msg
         | Some n \<Rightarrow> if n = [] then sender_id msg else n),
      msgType = msg_type msg\<rparr>"

definition allMessages :: "ChatMessage list \<Rightarrow> ChatMessage list \<Rightarrow> ChatMessage list" where
  "allMessages records1 records2 = js_sort oldest_first_cmp (records1 @ records2)"

definition transformedMessages ::
  "WxAccount option \<Rightarrow> ChatMessage list \<Rightarrow> ChatMessage list \<Rightarrow> Message list" where
  "transformedMessages acct records1 records2 = map (transform acct) (allMessages records1 records2)"

definition history_requests :: "WxAccount option \<Rightarrow> RoomListMessage \<Rightarrow> effect list" where
  "history_requests acct c =
     [Request (GetChatMessages (wxid_or_empty acct) (room_id c)),
      Request (GetChatMpMessages (wxid_or_empty acct) (room_id c))]"

subsection \<open>loadMessages\<close>

text \<open>
  Three parts, split at the two \<^verbatim>\<open>await\<close>s of lines 58 and 70. \<open>conv\<close> and \<open>acct\<close> are
  the props the closure captured.
\<close>

definition loadMessages_begin ::
  "RoomListMessage option \<Rightarrow> WxAccount option \<Rightarrow> DialogPage_state \<Rightarrow> DialogPage_state \<times> effect list" where
  "loadMessages_begin conv acct st =
     (case conv of
        None \<Rightarrow> (st, [])
      | Some c \<Rightarrow>
          (st\<lparr>isFetchingHistory := True\<rparr>,
           [Request (GetAIReplyList (name_or_empty acct) (wxid_or_empty acct))]))"

text \<open>
  The second part, lines 59 to 79. An array is stored and searched for the room id. A
  JSON string is stored too and has an \<^verbatim>\<open>includes\<close> of its own, which looks for the room
  id as a part of the text. On any other value \<^verbatim>\<open>includes\<close> is no function, and the
  \<^verbatim>\<open>catch\<close> of line 63 runs as it does when \<^verbatim>\<open>JSON.parse\<close> throws.
\<close>

definition loadMessages_ai ::
  "RoomListMessage \<Rightarrow> WxAccount option \<Rightarrow> DialogPage_state \<Rightarrow> js_error + ai_reply_value
     \<Rightarrow> DialogPage_state \<times> effect list" where
  "loadMessages_ai c acct st aiResponse =
     (case aiResponse of
        Inl e \<Rightarrow> (st\<lparr>isFetchingHistory := False\<rparr>, [Console_error ''Error loading messages:''])
      | Inr (Parsed (JArray enabledRooms)) \<Rightarrow>
          (st\<lparr>enabledRoomsRef := Room_list enabledRooms,
              isAIEnabled := (JString (room_id c) \<in> set enabledRooms)\<rparr>,
           history_requests acct c)
      | Inr (Parsed (JString s)) \<Rightarrow>
          (st\<lparr>enabledRoomsRef := Room_text s, isAIEnabled := text_includes s (room_id c)\<rparr>,
           history_requests acct c)
      | Inr _ \<Rightarrow>
          (st\<lparr>enabledRoomsRef := Room_list [], isAIEnabled := False\<rparr>,
           Console_error ''Error parsing AI enabled rooms:'' # history_requests acct c))"

definition loadMessages_history ::
  "WxAccount option \<Rightarrow> DialogPage_state \<Rightarrow> js_error + ChatMessage list \<Rightarrow> js_error + ChatMessage list
     \<Rightarrow> DialogPage_state \<times> effect list" where
  "loadMessages_history acct st response1 response2 =
     (case Promise_all response1 response2 of
        Inr (records1, records2) \<Rightarrow>
          (st\<lparr>messages := transformedMessages acct records1 records2,
              isFetchingHistory := False\<rparr>, [])
      | Inl e \<Rightarrow> (st\<lparr>isFetchingHistory := False\<rparr>, [Console_error ''Error loading messages:'']))"

text \<open>The effect of lines 39 to 45, run when the conversation prop changes.\<close>

definition conversation_effect ::
  "RoomListMessage option \<Rightarrow> WxAccount option \<Rightarrow> DialogPage_state \<Rightarrow> DialogPage_state \<times> effect list" where
  "conversation_effect conv acct st =
     (case conv of
        Some c \<Rightarrow> loadMessages_begin conv acct st
      | None \<Rightarrow> (st\<lparr>messages := []\<rparr>, []))"

subsection \<open>handleSendMessage\<close>

text \<open>
  \<open>now\<close> is \<^verbatim>\<open>new Date().toISOString()\<close>. The request carries the text the closure
  captured, not the cleared state.
\<close>

definition send_request_of :: "RoomListMessage \<Rightarrow> WxAccount \<Rightarrow> js_text \<Rightarrow> string \<Rightarrow> send_request" where
  "send_request_of c a text_sent now =
     (let sender = (if wxid a = [] then ''unknown'' else wxid a);
          roomId = filter (\<lambda>ch. ch \<noteq> CHR ''@'') (room_id c)
      in \<lparr>conf = \<lparr>conf_content = text_sent, conf_source_ip = source_ip a,
                  conf_room_id = room_id c, conf_sender = sender, conf_msg_type = 1,
                  conf_is_self = True, conf_is_group = is_group c\<rparr>,
          dag_run_id = ''manual_'' @ sender @ ''_'' @ roomId @ ''_'' @ now,
          data_interval_end = now, data_interval_start = now, logical_date = now,
          note' = ''manual_send''\<rparr>)"

definition handleSendMessage_begin ::
  "RoomListMessage option \<Rightarrow> WxAccount option \<Rightarrow> string \<Rightarrow> DialogPage_state
     \<Rightarrow> DialogPage_state \<times> effect list" where
  "handleSendMessage_begin conv acct now st =
     (case (trim (newMessage st) = [], conv, acct) of
        (False, Some c, Some a) \<Rightarrow>
          (st\<lparr>newMessage := [], isLoading := True\<rparr>,
           [Request (SendChatMessage (send_request_of c a (newMessage st) now))])
      | _ \<Rightarrow> (st, []))"

definition handleSendMessage_resume ::
  "RoomListMessage \<Rightarrow> WxAccount \<Rightarrow> DialogPage_state \<Rightarrow> js_error + unit
     \<Rightarrow> DialogPage_state \<times> effect list" where
  "handleSendMessage_resume c a st outcome =
     (case outcome of
        Inr _ \<Rightarrow>
          (st\<lparr>isSending := True, isLoading := False\<rparr>,
           [SetTimeout 2000 (RefreshMessages (wxid_or_empty (Some a)) (room_id c))])
      | Inl e \<Rightarrow> (st\<lparr>isLoading := False\<rparr>, [Console_error ''Error sending message:'']))"

text \<open>The callback of the timer (lines 133 to 165).\<close>

definition refresh_begin :: "RoomListMessage \<Rightarrow> WxAccount \<Rightarrow> effect list" where
  "refresh_begin c a = history_requests (Some a) c"

definition refresh_resume ::
  "WxAccount \<Rightarrow> DialogPage_state \<Rightarrow> js_error + ChatMessage list \<Rightarrow> js_error + ChatMessage list
     \<Rightarrow> DialogPage_state \<times> effect list" where
  "refresh_resume a st response1 response2 =
     (case Promise_all response1 response2 of
        Inr (records1, records2) \<Rightarrow>
          (st\<lparr>messages := transformedMessages (Some a) records1 records2, isSending := False\<rparr>, [])
      | Inl e \<Rightarrow> (st\<lparr>isSending := False\<rparr>, [Console_error ''Error refreshing messages:'']))"

subsection \<open>The AI switch\<close>

text \<open>
  The click handler of lines 201 to 234. \<^verbatim>\<open>indexOf\<close> with \<^verbatim>\<open>splice(index, 1)\<close> removes
  the first occurrence, as \<open>remove1\<close> does. The switch is drawn from \<open>isAIEnabled\<close>.
\<close>

definition currentRooms :: "RoomListMessage \<Rightarrow> DialogPage_state \<Rightarrow> json list" where
  "currentRooms c st =
     (if \<not> isAIEnabled st
      then (if JString (room_id c) \<notin> set (spread (enabledRoomsRef st))
            then spread (enabledRoomsRef st) @ [JString (room_id c)]
            else spread (enabledRoomsRef st))
      else remove1 (JString (room_id c)) (spread (enabledRoomsRef st)))"

definition toggleAI_begin ::
  "RoomListMessage \<Rightarrow> WxAccount option \<Rightarrow> DialogPage_state \<Rightarrow> DialogPage_state \<times> effect list" where
  "toggleAI_begin c acct st =
     (st\<lparr>isAIEnabled := \<not> isAIEnabled st, enabledRoomsRef := Room_list (currentRooms c st)\<rparr>,
      [Request (PostAIReplyList (name_or_empty acct) (wxid_or_empty acct) (currentRooms c st))])"

text \<open>\<open>newAIEnabled\<close> is the constant of line 202, captured by the closure.\<close>

definition toggleAI_resume ::
  "bool \<Rightarrow> DialogPage_state \<Rightarrow> js_error + unit \<Rightarrow> DialogPage_state \<times> effect list" where
  "toggleAI_resume newAIEnabled st outcome =
     (case outcome of
        Inr _ \<Rightarrow> (st, [])
      | Inl e \<Rightarrow>
          (st\<lparr>isAIEnabled := \<not> newAIEnabled\<rparr>, [Console_error ''Error updating AI enabled rooms:'']))"

text \<open>A whole click: the part before the post, then the part after its outcome.\<close>

definition toggleAI ::
  "RoomListMessage \<Rightarrow> WxAccount option \<Rightarrow> DialogPage_state \<Rightarrow> js_error + unit \<Rightarrow> DialogPage_state" where
  "toggleAI c acct st outcome =
     fst (toggleAI_resume (\<not> isAIEnabled st) (fst (toggleAI_begin c acct st)) outcome)"

text \<open>The list a click posts to the server.\<close>

definition posted_rooms :: "effect list \<Rightarrow> json list list" where
  "posted_rooms es = concat (map (\<lambda>e. case e of Request (PostAIReplyList n w rooms) \<Rightarrow> [rooms] | _ \<Rightarrow> []) es)"

subsection \<open>Timer tasks\<close>

text \<open>
  What a timer runs when it fires: the interval of the dialog view polls the message
  count, the timeout of \<^verbatim>\<open>handleSendMessage\<close> requests the two histories of the room
  again. \<open>acct\<close> is the account the polling closure captured.
\<close>

fun run_task :: "WxAccount option \<Rightarrow> task \<Rightarrow> effect list" where
  "run_task acct PollMessageCount = pollMessageCount_begin acct"
| "run_task acct (RefreshMessages w r) = [Request (GetChatMessages w r), Request (GetChatMpMessages w r)]"

subsection \<open>Whole handlers of the message pane\<close>




section \<open>The employee editor (App.tsx, employeeEdit.tsx)\<close>

text \<open>
  The router's matching of a path against a route pattern, as far as the editor needs
  it: both are cut at the slashes, a pattern segment that starts with a colon binds the
  path's segment under the name after the colon, and any other segment has to equal
  the path's segment, letter case aside. The parent route \<^verbatim>\<open>/*\<close> of App.tsx adds the
  splat parameter \<^verbatim>\<open>*\<close>, bound to the whole path below it without its leading slash.
\<close>

fun split_at :: "char \<Rightarrow> string \<Rightarrow> string \<Rightarrow> string list" where
  "split_at d acc [] = [rev acc]"
| "split_at d acc (c # cs) = (if c = d then rev acc # split_at d [] cs else split_at d (c # acc) cs)"

definition segments :: "string \<Rightarrow> string list" where
  "segments path = filter (\<lambda>s. s \<noteq> []) (split_at CHR ''/'' [] path)"

definition lower :: "char \<Rightarrow> char" where
  "lower c = (let n = (of_char c :: nat) in if 65 \<le> n \<and> n \<le> 90 then char_of (n + 32) else c)"

fun match_segments :: "string list \<Rightarrow> string list \<Rightarrow> (string \<times> string) list option" where
  "match_segments [] [] = Some []"
| "match_segments (p # ps) (s # ss) =
     (if p \<noteq> [] \<and> hd p = CHR '':''
      then map_option (\<lambda>rest. (tl p, s) # rest) (match_segments ps ss)
      else if map lower p = map lower s then match_segments ps ss
      else None)"
| "match_segments _ _ = None"

text \<open>The route of line 28 of App.tsx.\<close>

definition employee_edit_route :: string where
  "employee_edit_route = ''/employee/edit/:name''"

definition useParams :: "string \<Rightarrow> (string \<times> string) list option" where
  "useParams path =
     map_option (\<lambda>bound. (''*'', dropWhile (\<lambda>ch. ch = CHR ''/'') path) # bound)
       (match_segments (segments employee_edit_route) (segments path))"

text \<open>
  \<^verbatim>\<open>EmployeeEdit\<close>: \<open>param_wxid\<close> is the constant \<^verbatim>\<open>wxid\<close> of line 10, \<open>wxAccount\<close> the
  account in the navigation state. \<open>heading_name\<close> is what the heading of line 36 shows
  after its fixed prefix; \<open>None\<close> is \<^verbatim>\<open>undefined\<close>, which React renders as nothing.
\<close>

definition param_wxid :: "(string \<times> string) list \<Rightarrow> string option" where
  "param_wxid params = map_of params ''wxid''"

definition heading_name :: "WxAccount option \<Rightarrow> string option \<Rightarrow> string option" where
  "heading_name wxAccount w =
     (case wxAccount of
        None \<Rightarrow> w
      | Some a \<Rightarrow> if name a \<noteq> [] then Some (name a) else w)"

definition fetchPrompt_begin :: "WxAccount option \<Rightarrow> effect list" where
  "fetchPrompt_begin wxAccount =
     (case wxAccount of
        None \<Rightarrow> []
      | Some a \<Rightarrow> [Request (GetWxAccountPrompt (wxid a) (name a))])"

text \<open>
  The state of the editor is the prompt. A response is the \<^verbatim>\<open>value\<close> it carries, \<open>None\<close>
  when the response or its value is missing.
\<close>

definition fetchPrompt_resume :: "string \<Rightarrow> js_error + string option \<Rightarrow> string \<times> effect list" where
  "fetchPrompt_resume prompt response =
     (case response of
        Inr (Some v) \<Rightarrow> ((if v \<noteq> [] then v else prompt), [])
      | Inr None \<Rightarrow> (prompt, [])
      | Inl e \<Rightarrow> (prompt, [Console_error ''Failed to fetch prompt:'']))"


section \<open>The navigation bar\<close>

text \<open>
  The code of the bar follows the editor's in employeeEdit.tsx. \<^verbatim>\<open>handleLogout\<close> (lines
  128 to 135 there) asks the identity provider to end the session and then goes to the
  login page, or writes the failure to the console. It sets no state of the bar. The
  console line is Chinese text, given here by its UTF-8 bytes; the last is the colon.
\<close>

definition logout_failed_text :: string where
  "logout_failed_text =
     [CHR 0xE9, CHR 0x80, CHR 0x80, CHR 0xE5, CHR 0x87, CHR 0xBA, CHR 0xE7, CHR 0x99,
      CHR 0xBB, CHR 0xE5, CHR 0xBD, CHR 0x95, CHR 0xE5, CHR 0xA4, CHR 0xB1, CHR 0xE8,
      CHR 0xB4, CHR 0xA5, CHR 0x3A]"


definition handleLogout_resume :: "js_error + unit \<Rightarrow> effect list" where
  "handleLogout_resume outcome =
     (case outcome of
        Inr _ \<Rightarrow> [Navigate ''/login'']
      | Inl e \<Rightarrow> [Console_error logout_failed_text])"


section \<open>Views outside the sources\<close>

text \<open>
  Modelled from the spec: the fetch call sites of the views that the sources import from
  files that are not among them (the dialog list, the chat memory, the material base,
  the employee table and the editor's configuration, upload and test panels, the
  dashboard, the calendar, the login page and the route guard). The spec, section 7,
  says of them what it says of every call site: errors are caught at the call site and
  logged to console, the UI falls back to an empty or default state, and nothing is
  tried again. A call site is given by the state it falls back to, by what it does with
  a response, and by the line it logs.
\<close>

record ('s, 'a) view_fetch =
  fallback_state :: 's
  store_response :: "'a \<Rightarrow> 's \<Rightarrow> 's"
  console_line :: string

text \<open>
  Modelled from the spec: what such a call site does with the outcome of its fetch. A
  response is stored; an error is logged and the state falls back to the default.
\<close>

definition view_fetch_resume :: "('s, 'a) view_fetch \<Rightarrow> 's \<Rightarrow> js_error + 'a \<Rightarrow> 's \<times> effect list" where
  "view_fetch_resume site st response =
     (case response of
        Inr v \<Rightarrow> (store_response site v st, [])
      | Inl e \<Rightarrow> (fallback_state site, [Console_error (console_line site)]))"

section \<open>Notions the properties are stated with\<close>

text \<open>
  Order of two time values, for sorted lists: a pair with a \<open>NaN\<close> is not constrained.
\<close>

fun not_later :: "js_number \<Rightarrow> js_number \<Rightarrow> bool" where
  "not_later (Num a) (Num b) = (a \<le> b)"
| "not_later _ _ = True"

definition newest_first :: "RoomListMessage list \<Rightarrow> bool" where
  "newest_first cs = sorted_wrt (\<lambda>a b. not_later (rl_msg_datetime b) (rl_msg_datetime a)) cs"

definition oldest_first :: "Message list \<Rightarrow> bool" where
  "oldest_first ms = sorted_wrt (\<lambda>a b. not_later (timestamp a) (timestamp b)) ms"

text \<open>The milliseconds of a time value that is a date.\<close>

fun millis :: "js_number \<Rightarrow> int" where
  "millis (Num t) = t"
| "millis NaN = 0"

text \<open>
  The effects of a handler that start something again: requests and timers, as opposed
  to lines on the console.
\<close>

fun starts_work :: "effect \<Rightarrow> bool" where
  "starts_work (Request _) = True"
| "starts_work (SetTimeout _ _) = True"
| "starts_work (SetInterval _ _) = True"
| "starts_work ClearInterval = False"
| "starts_work (Navigate _) = False"
| "starts_work (Console_error _) = False"

section \<open>Sample inputs\<close>

text \<open>Small records used where a property is run on a concrete input.\<close>

definition sample_room :: "string \<Rightarrow> js_number \<Rightarrow> RoomListMessage" where
  "sample_room r t =
     \<lparr>room_id = r, room_name = None, rl_sender_name = None, rl_msg_datetime = t, is_group = False\<rparr>"

definition sample_message :: "string \<Rightarrow> js_number \<Rightarrow> ChatMessage" where
  "sample_message i t =
     \<lparr>msg_id = i, content = None, msg_datetime = t, sender_id = ''alice'', sender_name = None,
      msg_type = Some 1\<rparr>"

definition sample_account :: WxAccount where
  "sample_account = \<lparr>wxid = ''wx1'', name = ''bot'', source_ip = ''10.0.0.1''\<rparr>"

section \<open>The sort and the two merges\<close>

lemma mset_js_insert: "mset (js_insert cmp x ys) = add_mset x (mset ys)"
  by (induction ys) auto

lemma mset_js_sort: "mset (js_sort cmp xs) = mset xs"
  unfolding js_sort_def by (induction xs) (auto simp: mset_js_insert)

lemma set_js_sort: "set (js_sort cmp xs) = set xs"
  using mset_js_sort [of cmp xs] by (metis set_mset_mset)

lemma length_js_sort: "length (js_sort cmp xs) = length xs"
  using mset_js_sort [of cmp xs] by (metis size_mset)

lemma js_insert_insort_key:
  fixes f :: "'a \<Rightarrow> int"
  assumes "\<forall>y \<in> set ys. (0 < SortCompare cmp x y) = (f y < f x)"
  shows "js_insert cmp x ys = insort_key f x ys"
  using assms by (induction ys) auto

lemma js_sort_sort_key:
  fixes f :: "'a \<Rightarrow> int"
  assumes "\<forall>x \<in> set xs. \<forall>y \<in> set xs. (0 < SortCompare cmp x y) = (f y < f x)"
  shows "js_sort cmp xs = sort_key f xs"
  using assms
proof (induction xs)
  case Nil
  then show ?case by (simp add: js_sort_def)
next
  case (Cons x xs)
  have tail: "js_sort cmp xs = sort_key f xs"
    using Cons by simp
  have "js_sort cmp (x # xs) = js_insert cmp x (js_sort cmp xs)"
    by (simp add: js_sort_def)
  also have "\<dots> = insort_key f x (js_sort cmp xs)"
    using Cons.prems by (intro js_insert_insort_key) (simp add: set_js_sort)
  finally show ?case
    by (simp add: tail)
qed

lemma SortCompare_oldest:
  "msg_datetime a \<noteq> NaN \<Longrightarrow> msg_datetime b \<noteq> NaN \<Longrightarrow>
   SortCompare oldest_first_cmp a b = millis (msg_datetime a) - millis (msg_datetime b)"
  by (cases "msg_datetime a"; cases "msg_datetime b") (simp_all add: SortCompare_def oldest_first_cmp_def)

lemma SortCompare_newest:
  "rl_msg_datetime a \<noteq> NaN \<Longrightarrow> rl_msg_datetime b \<noteq> NaN \<Longrightarrow>
   SortCompare newest_first_cmp a b = millis (rl_msg_datetime b) - millis (rl_msg_datetime a)"
  by (cases "rl_msg_datetime a"; cases "rl_msg_datetime b") (simp_all add: SortCompare_def newest_first_cmp_def)

lemma merge_conversations_sort_key:
  assumes "\<forall>c \<in> set (data1 @ data2). rl_msg_datetime c \<noteq> NaN"
  shows "merge_conversations data1 data2 = sort_key (\<lambda>c. - millis (rl_msg_datetime c)) (data1 @ data2)"
  unfolding merge_conversations_def
  using assms by (intro js_sort_sort_key) (auto simp: SortCompare_newest)

lemma allMessages_sort_key:
  assumes "\<forall>m \<in> set (records1 @ records2). msg_datetime m \<noteq> NaN"
  shows "allMessages records1 records2 = sort_key (\<lambda>m. millis (msg_datetime m)) (records1 @ records2)"
  unfolding allMessages_def
  using assms by (intro js_sort_sort_key) (auto simp: SortCompare_oldest)

lemma not_later_millis: "a \<noteq> NaN \<Longrightarrow> b \<noteq> NaN \<Longrightarrow> not_later a b = (millis a \<le> millis b)"
  by (cases a; cases b) simp_all

lemma newest_first_merge:
  assumes "\<forall>c \<in> set (data1 @ data2). rl_msg_datetime c \<noteq> NaN"
  shows "newest_first (merge_conversations data1 data2)"
proof -
  let ?f = "\<lambda>c. - millis (rl_msg_datetime c)"
  have "sorted (map ?f (sort_key ?f (data1 @ data2)))"
    by (rule sorted_sort_key)
  then have "sorted_wrt (\<lambda>a b. ?f a \<le> ?f b) (sort_key ?f (data1 @ data2))"
    by (simp add: sorted_map)
  then have "sorted_wrt (\<lambda>a b. not_later (rl_msg_datetime b) (rl_msg_datetime a)) (sort_key ?f (data1 @ data2))"
    using assms by (elim sorted_wrt_mono_rel [rotated]) (auto simp: not_later_millis)
  then show ?thesis
    by (simp add: newest_first_def merge_conversations_sort_key [OF assms])
qed

lemma timestamp_transform: "timestamp (transform acct m) = msg_datetime m"
  by (simp add: transform_def)

lemma oldest_first_transformed:
  assumes "\<forall>m \<in> set (records1 @ records2). msg_datetime m \<noteq> NaN"
  shows "oldest_first (transformedMessages acct records1 records2)"
proof -
  let ?f = "\<lambda>m. millis (msg_datetime m)"
  have "sorted (map ?f (sort_key ?f (records1 @ records2)))"
    by (rule sorted_sort_key)
  then have "sorted_wrt (\<lambda>a b. ?f a \<le> ?f b) (sort_key ?f (records1 @ records2))"
    by (simp add: sorted_map)
  then have "sorted_wrt (\<lambda>a b. not_later (msg_datetime a) (msg_datetime b)) (sort_key ?f (records1 @ records2))"
    using assms by (elim sorted_wrt_mono_rel [rotated]) (auto simp: not_later_millis)
  then show ?thesis
    by (simp add: oldest_first_def transformedMessages_def allMessages_sort_key [OF assms]
        sorted_wrt_map timestamp_transform)
qed

lemma getConversations_resume_ok:
  "getConversations_resume st (Inr data1) (Inr data2) =
     (st\<lparr>conversations := merge_conversations data1 data2, isLoadingConversations := False\<rparr>, [])"
  by (simp add: getConversations_resume_def)

lemma loadMessages_history_ok:
  "loadMessages_history acct st (Inr records1) (Inr records2) =
     (st\<lparr>messages := transformedMessages acct records1 records2, isFetchingHistory := False\<rparr>, [])"
  by (simp add: loadMessages_history_def)

lemma refresh_resume_ok:
  "refresh_resume a st (Inr records1) (Inr records2) =
     (st\<lparr>messages := transformedMessages (Some a) records1 records2, isSending := False\<rparr>, [])"
  by (simp add: refresh_resume_def)

lemma js_sort_Cons: "js_sort cmp (x # xs) = js_insert cmp x (js_sort cmp xs)"
  by (simp add: js_sort_def)

lemma js_sort_Nil: "js_sort cmp [] = []"
  by (simp add: js_sort_def)

lemma count_list_js_sort: "count_list (js_sort cmp xs) x = count_list xs x"
  using mset_js_sort [of cmp xs] by (metis count_mset)

lemma count_list_map_js_sort: "count_list (map f (js_sort cmp xs)) k = count_list (map f xs) k"
proof -
  have "mset (map f (js_sort cmp xs)) = mset (map f xs)"
    by (simp add: mset_js_sort)
  then show ?thesis by (metis count_mset)
qed

lemma id_transform: "id' (transform acct m) = msg_id m"
  by (simp add: transform_def)

lemma count_list_ge: "x \<in> set xs \<Longrightarrow> 1 \<le> count_list xs x"
  by (induction xs) auto

text \<open>
  C1 (amended). The two merged lists are the concatenation of the two responses, sorted
  by time with the order of equal times kept, whenever every \<open>msg_datetime\<close> of the
  responses is a date: \<^verbatim>\<open>getConversations\<close> stores the room records of both responses
  newest first, and \<^verbatim>\<open>loadMessages\<close> stores the display records (\<open>transform\<close>) of the chat
  records of both responses, oldest first. Nothing is added and nothing is dropped.
\<close>

theorem merged_lists_sorted_by_time:
  "((\<forall>c \<in> set (data1 @ data2). rl_msg_datetime c \<noteq> NaN) \<longrightarrow>
      conversations (fst (getConversations_resume st (Inr data1) (Inr data2)))
        = sort_key (\<lambda>c. - millis (rl_msg_datetime c)) (data1 @ data2)
      \<and> mset (conversations (fst (getConversations_resume st (Inr data1) (Inr data2))))
        = mset data1 + mset data2
      \<and> newest_first (conversations (fst (getConversations_resume st (Inr data1) (Inr data2)))))
   \<and> ((\<forall>m \<in> set (records1 @ records2). msg_datetime m \<noteq> NaN) \<longrightarrow>
      messages (fst (loadMessages_history acct st' (Inr records1) (Inr records2)))
        = map (transform acct) (sort_key (\<lambda>m. millis (msg_datetime m)) (records1 @ records2))
      \<and> mset (messages (fst (loadMessages_history acct st' (Inr records1) (Inr records2))))
        = image_mset (transform acct) (mset records1 + mset records2)
      \<and> oldest_first (messages (fst (loadMessages_history acct st' (Inr records1) (Inr records2)))))"
proof (intro conjI impI)
  assume v: "\<forall>c \<in> set (data1 @ data2). rl_msg_datetime c \<noteq> NaN"
  show "conversations (fst (getConversations_resume st (Inr data1) (Inr data2)))
        = sort_key (\<lambda>c. - millis (rl_msg_datetime c)) (data1 @ data2)"
    by (simp add: getConversations_resume_ok merge_conversations_sort_key [OF v])
  show "mset (conversations (fst (getConversations_resume st (Inr data1) (Inr data2))))
        = mset data1 + mset data2"
    by (simp add: getConversations_resume_ok merge_conversations_def mset_js_sort)
  show "newest_first (conversations (fst (getConversations_resume st (Inr data1) (Inr data2))))"
    by (simp add: getConversations_resume_ok newest_first_merge [OF v])
next
  assume v: "\<forall>m \<in> set (records1 @ records2). msg_datetime m \<noteq> NaN"
  show "messages (fst (loadMessages_history acct st' (Inr records1) (Inr records2)))
        = map (transform acct) (sort_key (\<lambda>m. millis (msg_datetime m)) (records1 @ records2))"
    by (simp add: loadMessages_history_ok transformedMessages_def allMessages_sort_key [OF v])
  show "mset (messages (fst (loadMessages_history acct st' (Inr records1) (Inr records2))))
        = image_mset (transform acct) (mset records1 + mset records2)"
    by (simp add: loadMessages_history_ok transformedMessages_def allMessages_def mset_js_sort)
  show "oldest_first (messages (fst (loadMessages_history acct st' (Inr records1) (Inr records2))))"
    by (simp add: loadMessages_history_ok oldest_first_transformed [OF v])
qed

text \<open>The theorem on two responses of one record each.\<close>

theorem merged_lists_sorted_by_time_witness:
  "conversations (fst (getConversations_resume (selectAccount Dialog_init sample_account)
       (Inr [sample_room ''a'' (Num 1000)]) (Inr [sample_room ''b'' (Num 3000)])))
     = [sample_room ''b'' (Num 3000), sample_room ''a'' (Num 1000)]
   \<and> map id' (messages (fst (loadMessages_history None DialogPage_init
       (Inr [sample_message ''m2'' (Num 2000)]) (Inr [sample_message ''m1'' (Num 1000)]))))
     = [''m1'', ''m2'']"
  using merged_lists_sorted_by_time [of "[sample_room ''a'' (Num 1000)]"
      "[sample_room ''b'' (Num 3000)]" "selectAccount Dialog_init sample_account" "[sample_message ''m2'' (Num 2000)]"
      "[sample_message ''m1'' (Num 1000)]" None DialogPage_init]
  by (simp add: sample_room_def sample_message_def transform_def)

text \<open>
  With a record whose \<open>msg_datetime\<close> is no date the comparator answers \<open>NaN\<close> for every
  pair that holds it, the sort moves nothing, and the oldest conversation stays in
  front of the newest: the list is not sorted by time.
\<close>

theorem merged_lists_unparsable_date_counterexample:
  "conversations (fst (getConversations_resume (selectAccount Dialog_init sample_account)
       (Inr [sample_room ''a'' (Num 1000), sample_room ''b'' NaN]) (Inr [sample_room ''c'' (Num 3000)])))
     = [sample_room ''a'' (Num 1000), sample_room ''b'' NaN, sample_room ''c'' (Num 3000)]
   \<and> \<not> newest_first (conversations (fst (getConversations_resume (selectAccount Dialog_init sample_account)
       (Inr [sample_room ''a'' (Num 1000), sample_room ''b'' NaN]) (Inr [sample_room ''c'' (Num 3000)]))))"
  by (simp add: getConversations_resume_ok merge_conversations_def js_sort_Cons js_sort_Nil
      SortCompare_def newest_first_cmp_def newest_first_def sample_room_def)

text \<open>
  C8. The merges remove no duplicate: the merged list is as long as the two responses
  together, every record occurs in it as often as in the two responses together, so a
  record that both endpoints return occurs at least twice, and the same holds for the
  \<open>msg_id\<close>s that the message pane uses as rendering keys.
\<close>

theorem merges_keep_duplicates:
  "length (conversations (fst (getConversations_resume st (Inr data1) (Inr data2))))
     = length data1 + length data2
   \<and> count_list (conversations (fst (getConversations_resume st (Inr data1) (Inr data2)))) c
     = count_list data1 c + count_list data2 c
   \<and> (c \<in> set data1 \<and> c \<in> set data2 \<longrightarrow>
        2 \<le> count_list (conversations (fst (getConversations_resume st (Inr data1) (Inr data2)))) c)
   \<and> length (messages (fst (loadMessages_history acct st' (Inr records1) (Inr records2))))
     = length records1 + length records2
   \<and> count_list (map id' (messages (fst (loadMessages_history acct st' (Inr records1) (Inr records2))))) k
     = count_list (map msg_id records1) k + count_list (map msg_id records2) k
   \<and> (k \<in> set (map msg_id records1) \<and> k \<in> set (map msg_id records2) \<longrightarrow>
        2 \<le> count_list (map id' (messages (fst (loadMessages_history acct st' (Inr records1) (Inr records2))))) k)"
proof -
  let ?cs = "conversations (fst (getConversations_resume st (Inr data1) (Inr data2)))"
  let ?ms = "messages (fst (loadMessages_history acct st' (Inr records1) (Inr records2)))"
  have cs: "?cs = js_sort newest_first_cmp (data1 @ data2)"
    by (simp add: getConversations_resume_ok merge_conversations_def)
  have ms: "?ms = map (transform acct) (js_sort oldest_first_cmp (records1 @ records2))"
    by (simp add: loadMessages_history_ok transformedMessages_def allMessages_def)
  have ids: "map id' ?ms = map msg_id (js_sort oldest_first_cmp (records1 @ records2))"
    by (simp add: ms id_transform)
  have l1: "length ?cs = length data1 + length data2"
    by (simp add: cs length_js_sort)
  have c1: "count_list ?cs c = count_list data1 c + count_list data2 c"
    by (simp add: cs count_list_js_sort)
  have d1: "c \<in> set data1 \<and> c \<in> set data2 \<longrightarrow> 2 \<le> count_list ?cs c"
    using count_list_ge [of c data1] count_list_ge [of c data2] c1 by auto
  have l2: "length ?ms = length records1 + length records2"
    by (simp add: ms length_js_sort)
  have c2: "count_list (map id' ?ms) k
      = count_list (map msg_id records1) k + count_list (map msg_id records2) k"
    by (simp add: ids count_list_map_js_sort)
  have d2: "k \<in> set (map msg_id records1) \<and> k \<in> set (map msg_id records2)
      \<longrightarrow> 2 \<le> count_list (map id' ?ms) k"
  proof
    assume both: "k \<in> set (map msg_id records1) \<and> k \<in> set (map msg_id records2)"
    have "1 \<le> count_list (map msg_id records1) k"
      using both by (intro count_list_ge) blast
    moreover have "1 \<le> count_list (map msg_id records2) k"
      using both by (intro count_list_ge) blast
    ultimately show "2 \<le> count_list (map id' ?ms) k"
      using c2 by linarith
  qed
  from l1 c1 d1 l2 c2 d2 show ?thesis by blast
qed

text \<open>The theorem on a record that both endpoints return.\<close>

theorem merges_keep_duplicates_witness:
  "count_list (conversations (fst (getConversations_resume (selectAccount Dialog_init sample_account)
       (Inr [sample_room ''a'' (Num 1000)]) (Inr [sample_room ''a'' (Num 1000)]))))
     (sample_room ''a'' (Num 1000)) = 2
   \<and> map id' (messages (fst (loadMessages_history None DialogPage_init
       (Inr [sample_message ''m1'' (Num 1000)]) (Inr [sample_message ''m1'' (Num 1000)]))))
     = [''m1'', ''m1'']"
  using merges_keep_duplicates [of "selectAccount Dialog_init sample_account" "[sample_room ''a'' (Num 1000)]"
      "[sample_room ''a'' (Num 1000)]" "sample_room ''a'' (Num 1000)" None DialogPage_init
      "[sample_message ''m1'' (Num 1000)]" "[sample_message ''m1'' (Num 1000)]" "''m1''"]
  by (simp add: getConversations_resume_ok loadMessages_history_ok merge_conversations_def
      transformedMessages_def allMessages_def js_sort_Cons js_sort_Nil SortCompare_def
      newest_first_cmp_def oldest_first_cmp_def sample_room_def sample_message_def transform_def)

section \<open>The AI switch and the list of enabled rooms\<close>

lemma posted_rooms_toggleAI_begin:
  "posted_rooms (snd (toggleAI_begin c acct st)) = [currentRooms c st]"
  by (simp add: toggleAI_begin_def posted_rooms_def)

lemma currentRooms_others:
  "filter (\<lambda>r. r \<noteq> JString (room_id c)) (currentRooms c st)
     = filter (\<lambda>r. r \<noteq> JString (room_id c)) (spread (enabledRoomsRef st))"
  by (simp add: currentRooms_def filter_remove1)

lemma count_list_notin: "x \<notin> set xs \<Longrightarrow> count_list xs x = 0"
  by (induction xs) auto

lemma count_list_pos: "x \<in> set xs \<Longrightarrow> 0 < count_list xs x"
  by (induction xs) auto

lemma currentRooms_enable:
  assumes "\<not> isAIEnabled st"
  shows "count_list (currentRooms c st) (JString (room_id c))
     = max 1 (count_list (spread (enabledRoomsRef st)) (JString (room_id c)))"
proof (cases "JString (room_id c) \<in> set (spread (enabledRoomsRef st))")
  case True
  then show ?thesis
    using assms count_list_pos [of "JString (room_id c)" "spread (enabledRoomsRef st)"]
    by (simp add: currentRooms_def)
next
  case False
  then show ?thesis
    using assms by (simp add: currentRooms_def count_list_notin)
qed

lemma currentRooms_disable:
  assumes "isAIEnabled st"
  shows "count_list (currentRooms c st) (JString (room_id c))
     = count_list (spread (enabledRoomsRef st)) (JString (room_id c)) - 1"
  using assms by (simp add: currentRooms_def)

lemma currentRooms_distinct:
  "distinct (spread (enabledRoomsRef st)) \<Longrightarrow> distinct (currentRooms c st)"
  by (simp add: currentRooms_def)

lemma in_set_count_list: "(x \<in> set xs) = (0 < count_list xs x)"
  by (cases "x \<in> set xs") (simp_all add: count_list_pos count_list_notin)

lemma loadMessages_ai_array:
  "loadMessages_ai c acct st (Inr (Parsed (JArray rooms)))
     = (st\<lparr>enabledRoomsRef := Room_list rooms, isAIEnabled := (JString (room_id c) \<in> set rooms)\<rparr>,
        history_requests acct c)"
  by (simp add: loadMessages_ai_def)

lemma toggleAI_stored:
  "enabledRoomsRef (toggleAI c acct st outcome) = Room_list (currentRooms c st)"
  by (cases outcome) (simp_all add: toggleAI_def toggleAI_begin_def toggleAI_resume_def)

lemma toggleAI_posted_shown:
  "isAIEnabled (toggleAI c acct st (Inr ())) = (\<not> isAIEnabled st)"
  by (simp add: toggleAI_def toggleAI_begin_def toggleAI_resume_def)

text \<open>
  C2 (amended). When the AI-reply variable parses to an array, \<^verbatim>\<open>loadMessages\<close> stores
  that array and shows the switch on exactly when the conversation's \<open>room_id\<close> is one
  of its elements; the first click after it posts the fetched array with the room
  appended when it was missing, and with its first occurrence removed when it was
  there. Every click posts the updated list and stores it, whatever the post's
  outcome; every other element of the list is unchanged and in place, and a list
  without duplicates stays without duplicates. When the stored list holds \<open>room_id\<close> at
  most once, the posted list holds it exactly once after enabling and not at all after
  disabling, and after a click whose post succeeded the switch is on exactly when
  \<open>room_id\<close> is in the stored list.
\<close>

theorem ai_switch_and_posted_list:
  "isAIEnabled (fst (loadMessages_ai c acct st (Inr (Parsed (JArray rooms)))))
     = (JString (room_id c) \<in> set rooms)
   \<and> enabledRoomsRef (fst (loadMessages_ai c acct st (Inr (Parsed (JArray rooms))))) = Room_list rooms
   \<and> posted_rooms (snd (toggleAI_begin c acct
         (fst (loadMessages_ai c acct st (Inr (Parsed (JArray rooms)))))))
       = [if JString (room_id c) \<in> set rooms then remove1 (JString (room_id c)) rooms
          else rooms @ [JString (room_id c)]]
   \<and> posted_rooms (snd (toggleAI_begin c acct st')) = [currentRooms c st']
   \<and> enabledRoomsRef (toggleAI c acct st' outcome) = Room_list (currentRooms c st')
   \<and> filter (\<lambda>r. r \<noteq> JString (room_id c)) (currentRooms c st')
       = filter (\<lambda>r. r \<noteq> JString (room_id c)) (spread (enabledRoomsRef st'))
   \<and> (count_list (spread (enabledRoomsRef st')) (JString (room_id c)) \<le> 1 \<longrightarrow>
        (\<not> isAIEnabled st' \<longrightarrow> count_list (currentRooms c st') (JString (room_id c)) = 1)
        \<and> (isAIEnabled st' \<longrightarrow> JString (room_id c) \<notin> set (currentRooms c st'))
        \<and> isAIEnabled (toggleAI c acct st' (Inr ()))
            = (JString (room_id c) \<in> set (spread (enabledRoomsRef (toggleAI c acct st' (Inr ()))))))
   \<and> (distinct (spread (enabledRoomsRef st')) \<longrightarrow> distinct (currentRooms c st'))"
proof (intro conjI impI)
  show "isAIEnabled (fst (loadMessages_ai c acct st (Inr (Parsed (JArray rooms)))))
     = (JString (room_id c) \<in> set rooms)"
    by (simp add: loadMessages_ai_array)
  show "enabledRoomsRef (fst (loadMessages_ai c acct st (Inr (Parsed (JArray rooms))))) = Room_list rooms"
    by (simp add: loadMessages_ai_array)
  show "posted_rooms (snd (toggleAI_begin c acct
         (fst (loadMessages_ai c acct st (Inr (Parsed (JArray rooms)))))))
       = [if JString (room_id c) \<in> set rooms then remove1 (JString (room_id c)) rooms
          else rooms @ [JString (room_id c)]]"
    by (simp add: posted_rooms_toggleAI_begin loadMessages_ai_array currentRooms_def)
  show "posted_rooms (snd (toggleAI_begin c acct st')) = [currentRooms c st']"
    by (rule posted_rooms_toggleAI_begin)
  show "enabledRoomsRef (toggleAI c acct st' outcome) = Room_list (currentRooms c st')"
    by (rule toggleAI_stored)
  show "filter (\<lambda>r. r \<noteq> JString (room_id c)) (currentRooms c st')
       = filter (\<lambda>r. r \<noteq> JString (room_id c)) (spread (enabledRoomsRef st'))"
    by (rule currentRooms_others)
next
  assume once: "count_list (spread (enabledRoomsRef st')) (JString (room_id c)) \<le> 1"
    and off: "\<not> isAIEnabled st'"
  show "count_list (currentRooms c st') (JString (room_id c)) = 1"
    using once currentRooms_enable [OF off, of c] by simp
next
  assume once: "count_list (spread (enabledRoomsRef st')) (JString (room_id c)) \<le> 1"
    and on: "isAIEnabled st'"
  have "count_list (currentRooms c st') (JString (room_id c)) = 0"
    using once currentRooms_disable [OF on, of c] by simp
  then show "JString (room_id c) \<notin> set (currentRooms c st')"
    by (simp add: in_set_count_list)
next
  assume once: "count_list (spread (enabledRoomsRef st')) (JString (room_id c)) \<le> 1"
  show "isAIEnabled (toggleAI c acct st' (Inr ()))
            = (JString (room_id c) \<in> set (spread (enabledRoomsRef (toggleAI c acct st' (Inr ())))))"
  proof (cases "isAIEnabled st'")
    case True
    have "count_list (currentRooms c st') (JString (room_id c)) = 0"
      using once currentRooms_disable [OF True, of c] by simp
    then show ?thesis
      using True by (simp add: toggleAI_stored toggleAI_posted_shown in_set_count_list)
  next
    case False
    have "count_list (currentRooms c st') (JString (room_id c)) = 1"
      using once currentRooms_enable [OF False, of c] by simp
    then show ?thesis
      using False by (simp add: toggleAI_stored toggleAI_posted_shown in_set_count_list)
  qed
next
  assume "distinct (spread (enabledRoomsRef st'))"
  then show "distinct (currentRooms c st')"
    by (rule currentRooms_distinct)
qed

text \<open>
  The theorem on one click that enables and one that disables the room \<open>r\<close>, each
  followed by a post that succeeds.
\<close>

theorem ai_switch_and_posted_list_witness:
  "posted_rooms (snd (toggleAI_begin (sample_room ''r'' (Num 0)) (Some sample_account)
       (DialogPage_init\<lparr>isAIEnabled := False, enabledRoomsRef := Room_list [JString ''q'']\<rparr>)))
     = [[JString ''q'', JString ''r'']]
   \<and> isAIEnabled (toggleAI (sample_room ''r'' (Num 0)) (Some sample_account)
       (DialogPage_init\<lparr>isAIEnabled := False, enabledRoomsRef := Room_list [JString ''q'']\<rparr>) (Inr ()))
   \<and> posted_rooms (snd (toggleAI_begin (sample_room ''r'' (Num 0)) (Some sample_account)
       (DialogPage_init\<lparr>isAIEnabled := True,
          enabledRoomsRef := Room_list [JString ''q'', JString ''r'']\<rparr>)))
     = [[JString ''q'']]
   \<and> \<not> isAIEnabled (toggleAI (sample_room ''r'' (Num 0)) (Some sample_account)
       (DialogPage_init\<lparr>isAIEnabled := True,
          enabledRoomsRef := Room_list [JString ''q'', JString ''r'']\<rparr>) (Inr ()))"
  using ai_switch_and_posted_list [of "sample_room ''r'' (Num 0)" "Some sample_account"
      DialogPage_init "[]"
      "DialogPage_init\<lparr>isAIEnabled := False, enabledRoomsRef := Room_list [JString ''q'']\<rparr>" "Inr ()"]
    ai_switch_and_posted_list [of "sample_room ''r'' (Num 0)" "Some sample_account"
      DialogPage_init "[]"
      "DialogPage_init\<lparr>isAIEnabled := True,
         enabledRoomsRef := Room_list [JString ''q'', JString ''r'']\<rparr>" "Inr ()"]
  by (simp add: currentRooms_def sample_room_def DialogPage_init_def)

text \<open>
  The claim as it stands fails in three ways. When the server's array names the room
  twice, disabling removes the first occurrence only, and the list that is posted while
  the switch shows off still holds the room. When the post fails, the switch goes back
  and the stored list does not, so after the click the switch is on for a room that the
  stored list no longer holds. When the variable is the JSON string \<^verbatim>\<open>xry\<close> and no
  array, the switch is on for the room \<open>r\<close> because the text contains it, and the click
  posts the remaining characters of the text.
\<close>

theorem ai_switch_duplicate_room_counterexample:
  "isAIEnabled (fst (loadMessages_ai (sample_room ''r'' (Num 0)) None DialogPage_init
       (Inr (Parsed (JArray [JString ''r'', JString ''r''])))))
   \<and> \<not> isAIEnabled (toggleAI (sample_room ''r'' (Num 0)) None
       (fst (loadMessages_ai (sample_room ''r'' (Num 0)) None DialogPage_init
          (Inr (Parsed (JArray [JString ''r'', JString ''r''])))))
       (Inr ()))
   \<and> posted_rooms (snd (toggleAI_begin (sample_room ''r'' (Num 0)) None
       (fst (loadMessages_ai (sample_room ''r'' (Num 0)) None DialogPage_init
          (Inr (Parsed (JArray [JString ''r'', JString ''r''])))))))
     = [[JString ''r'']]
   \<and> isAIEnabled (toggleAI (sample_room ''r'' (Num 0)) None
       (fst (loadMessages_ai (sample_room ''r'' (Num 0)) None DialogPage_init
          (Inr (Parsed (JArray [JString ''r''])))))
       (Inl (Js_error ''500'')))
   \<and> enabledRoomsRef (toggleAI (sample_room ''r'' (Num 0)) None
       (fst (loadMessages_ai (sample_room ''r'' (Num 0)) None DialogPage_init
          (Inr (Parsed (JArray [JString ''r''])))))
       (Inl (Js_error ''500'')))
     = Room_list []
   \<and> isAIEnabled (fst (loadMessages_ai (sample_room ''r'' (Num 0)) None DialogPage_init
       (Inr (Parsed (JString ''xry'')))))
   \<and> enabledRoomsRef (fst (loadMessages_ai (sample_room ''r'' (Num 0)) None DialogPage_init
       (Inr (Parsed (JString ''xry'')))))
     = Room_text ''xry''
   \<and> posted_rooms (snd (toggleAI_begin (sample_room ''r'' (Num 0)) None
       (fst (loadMessages_ai (sample_room ''r'' (Num 0)) None DialogPage_init
          (Inr (Parsed (JString ''xry'')))))))
     = [[JString ''x'', JString ''y'']]"
  by (simp add: loadMessages_ai_def toggleAI_def toggleAI_begin_def toggleAI_resume_def
      posted_rooms_def currentRooms_def sample_room_def DialogPage_init_def)

text \<open>
  C3 (amended). The AI switch is optimistic: the part of the click handler that runs
  before the post is awaited flips the displayed state and issues the post. When the
  post fails, the displayed state is back at its value from before the click and the
  error is on the console; the stored list of enabled rooms is not restored, it keeps
  the list that was posted. Nothing else of the state changes. When the post succeeds
  the state is the one the first part left.
\<close>

theorem ai_toggle_on_error:
  "isAIEnabled (fst (toggleAI_begin c acct st)) = (\<not> isAIEnabled st)
   \<and> snd (toggleAI_begin c acct st)
       = [Request (PostAIReplyList (name_or_empty acct) (wxid_or_empty acct) (currentRooms c st))]
   \<and> isAIEnabled (toggleAI c acct st (Inl e)) = isAIEnabled st
   \<and> enabledRoomsRef (toggleAI c acct st (Inl e)) = Room_list (currentRooms c st)
   \<and> toggleAI c acct st (Inl e) = st\<lparr>enabledRoomsRef := Room_list (currentRooms c st)\<rparr>
   \<and> snd (toggleAI_resume (\<not> isAIEnabled st) (fst (toggleAI_begin c acct st)) (Inl e))
       = [Console_error ''Error updating AI enabled rooms:'']
   \<and> toggleAI c acct st (Inr ()) = fst (toggleAI_begin c acct st)"
  by (simp add: toggleAI_def toggleAI_begin_def toggleAI_resume_def)

text \<open>The theorem on a failed post that tried to enable the room \<open>r\<close>.\<close>

theorem ai_toggle_on_error_witness:
  "toggleAI (sample_room ''r'' (Num 0)) None
       (DialogPage_init\<lparr>isAIEnabled := False, enabledRoomsRef := Room_list [JString ''q'']\<rparr>)
       (Inl (Js_error ''500''))
     = DialogPage_init\<lparr>isAIEnabled := False,
         enabledRoomsRef := Room_list [JString ''q'', JString ''r'']\<rparr>"
  using ai_toggle_on_error [of "sample_room ''r'' (Num 0)" None
      "DialogPage_init\<lparr>isAIEnabled := False, enabledRoomsRef := Room_list [JString ''q'']\<rparr>"
      "Js_error ''500''"]
  by (simp add: currentRooms_def sample_room_def DialogPage_init_def)

text \<open>
  The stored list after a failed post is not the list from before the click: the room
  that the failed click disabled is gone from it.
\<close>

theorem ai_toggle_list_not_restored_counterexample:
  "enabledRoomsRef (fst (loadMessages_ai (sample_room ''r'' (Num 0)) None DialogPage_init
       (Inr (Parsed (JArray [JString ''r'']))))) = Room_list [JString ''r'']
   \<and> enabledRoomsRef (toggleAI (sample_room ''r'' (Num 0)) None
       (fst (loadMessages_ai (sample_room ''r'' (Num 0)) None DialogPage_init
          (Inr (Parsed (JArray [JString ''r''])))))
       (Inl (Js_error ''500''))) = Room_list []"
  by (simp add: loadMessages_ai_def toggleAI_def toggleAI_begin_def toggleAI_resume_def
      currentRooms_def sample_room_def DialogPage_init_def)

section \<open>Failed fetches\<close>















section \<open>The account selector\<close>

lemma fetchWxAccounts_resume_ok:
  "fetchWxAccounts_resume st (Inr accounts) = (st\<lparr>wxAccountList := accounts, dlg_isLoading := False\<rparr>, [])"
  by (simp add: fetchWxAccounts_resume_def)

lemma button_key_render_account: "button_key (render_account st account) = wxid account"
  by (simp add: render_account_def)

lemma button_label_render_account: "button_label (render_account st account) = name account"
  by (simp add: render_account_def)

text \<open>
  C7. While the account list is loading the selector shows a spinner. Once the fetch
  has returned a list, loading is over; an empty list renders the placeholder, and any
  other list renders one element per account, in the order of the list, keyed by the
  account's \<open>wxid\<close> and holding the account's button labelled with its name.
\<close>

theorem account_selector_one_button_per_account:
  "render_account_selector (fst (fetchWxAccounts_begin st)) = Loading_spinner
   \<and> \<not> dlg_isLoading (fst (fetchWxAccounts_resume st (Inr accounts)))
   \<and> (accounts = [] \<longrightarrow>
        render_account_selector (fst (fetchWxAccounts_resume st (Inr accounts))) = No_accounts_placeholder)
   \<and> (accounts \<noteq> [] \<longrightarrow>
        (\<exists>buttons.
           render_account_selector (fst (fetchWxAccounts_resume st (Inr accounts))) = Account_buttons buttons
           \<and> length buttons = length accounts
           \<and> map button_key buttons = map wxid accounts
           \<and> map button_label buttons = map name accounts))"
proof (intro conjI impI)
  show "render_account_selector (fst (fetchWxAccounts_begin st)) = Loading_spinner"
    by (simp add: fetchWxAccounts_begin_def render_account_selector_def)
  show "\<not> dlg_isLoading (fst (fetchWxAccounts_resume st (Inr accounts)))"
    by (simp add: fetchWxAccounts_resume_ok)
next
  assume "accounts = []"
  then show "render_account_selector (fst (fetchWxAccounts_resume st (Inr accounts))) = No_accounts_placeholder"
    by (simp add: fetchWxAccounts_resume_ok render_account_selector_def)
next
  assume some: "accounts \<noteq> []"
  let ?st = "fst (fetchWxAccounts_resume st (Inr accounts))"
  have "render_account_selector ?st = Account_buttons (map (render_account ?st) accounts)"
    using some by (simp add: fetchWxAccounts_resume_ok render_account_selector_def)
  moreover have "length (map (render_account ?st) accounts) = length accounts"
    by simp
  moreover have "map button_key (map (render_account ?st) accounts) = map wxid accounts"
    by (simp add: button_key_render_account)
  moreover have "map button_label (map (render_account ?st) accounts) = map name accounts"
    by (simp add: button_label_render_account)
  ultimately show "\<exists>buttons.
           render_account_selector ?st = Account_buttons buttons
           \<and> length buttons = length accounts
           \<and> map button_key buttons = map wxid accounts
           \<and> map button_label buttons = map name accounts"
    by blast
qed

text \<open>The theorem on a list of two accounts and on the empty list.\<close>

theorem account_selector_one_button_per_account_witness:
  "render_account_selector (fst (fetchWxAccounts_resume Dialog_init
       (Inr [sample_account, sample_account\<lparr>wxid := ''wx2'', name := ''helper''\<rparr>])))
     = Account_buttons
         [\<lparr>button_key = ''wx1'', button_label = ''bot'', button_highlighted = False,
           button_dropdown_open = False\<rparr>,
          \<lparr>button_key = ''wx2'', button_label = ''helper'', button_highlighted = False,
           button_dropdown_open = False\<rparr>]
   \<and> render_account_selector (fst (fetchWxAccounts_resume Dialog_init (Inr []))) = No_accounts_placeholder"
  using account_selector_one_button_per_account [of Dialog_init
      "[sample_account, sample_account\<lparr>wxid := ''wx2'', name := ''helper''\<rparr>]"]
    account_selector_one_button_per_account [of Dialog_init "[]"]
  by (simp add: fetchWxAccounts_resume_ok render_account_selector_def render_account_def
      Dialog_init_def sample_account_def)

section \<open>The employee editor's route parameter\<close>

lemma segments_employee_edit_route:
  "segments employee_edit_route = [''employee'', ''edit'', '':name'']"
  by (simp add: segments_def employee_edit_route_def)

lemma match_employee_edit:
  assumes "match_segments [''employee'', ''edit'', '':name''] ss = Some bound"
  shows "\<exists>s. bound = [(''name'', s)]"
proof -
  obtain s1 r1 where ss: "ss = s1 # r1"
    using assms by (cases ss) auto
  obtain s2 r2 where r1: "r1 = s2 # r2"
    using assms ss by (cases r1) (auto split: if_splits)
  obtain s3 r3 where r2: "r2 = s3 # r3"
    using assms ss r1 by (cases r2) (auto split: if_splits)
  have "r3 = []"
    using assms ss r1 r2 by (cases r3) (auto split: if_splits)
  then show ?thesis
    using assms ss r1 r2 by (auto split: if_splits)
qed

lemma useParams_bound:
  assumes "useParams path = Some params"
  shows "\<exists>s. params = [(''*'', dropWhile (\<lambda>ch. ch = CHR ''/'') path), (''name'', s)]"
  using assms match_employee_edit [of "segments path"]
  by (auto simp: useParams_def segments_employee_edit_route)

lemma param_wxid_undefined:
  assumes "useParams path = Some params"
  shows "param_wxid params = None"
  using useParams_bound [OF assms] by (auto simp: param_wxid_def)

lemma useParams_example:
  "useParams ''/employee/edit/bot'' = Some [(''*'', ''employee/edit/bot''), (''name'', ''bot'')]"
  by (simp add: useParams_def segments_def employee_edit_route_def lower_def)

text \<open>
  C9. The route binds the parameter \<open>name\<close>, the editor reads \<open>wxid\<close>: for every path
  that the route matches, \<open>wxid\<close> is undefined. So without an account in the navigation
  state the heading shows no name, a name in the heading is the name of the account
  that was passed, and an account with a name puts that name in the heading. The
  prompt request is issued exactly when an account was passed.
\<close>

theorem employee_edit_wxid_undefined:
  "(useParams path = Some params \<longrightarrow>
      param_wxid params = None
      \<and> (wxAccount = None \<longrightarrow> heading_name wxAccount (param_wxid params) = None)
      \<and> (heading_name wxAccount (param_wxid params) = Some n \<longrightarrow>
           (\<exists>a. wxAccount = Some a \<and> n = name a)))
   \<and> (wxAccount = Some a \<and> name a \<noteq> [] \<longrightarrow> heading_name wxAccount w = Some (name a))
   \<and> (fetchPrompt_begin wxAccount = []) = (wxAccount = None)
   \<and> (wxAccount = Some a \<longrightarrow>
        fetchPrompt_begin wxAccount = [Request (GetWxAccountPrompt (wxid a) (name a))])"
proof (intro conjI impI)
  assume m: "useParams path = Some params"
  show u: "param_wxid params = None"
    by (rule param_wxid_undefined [OF m])
  show "heading_name wxAccount (param_wxid params) = None" if "wxAccount = None"
    using that u by (simp add: heading_name_def)
  show "\<exists>a. wxAccount = Some a \<and> n = name a" if "heading_name wxAccount (param_wxid params) = Some n"
    using that u by (cases wxAccount) (auto simp: heading_name_def split: if_splits)
next
  assume "wxAccount = Some a \<and> name a \<noteq> []"
  then show "heading_name wxAccount w = Some (name a)"
    by (simp add: heading_name_def)
next
  show "(fetchPrompt_begin wxAccount = []) = (wxAccount = None)"
    by (cases wxAccount) (simp_all add: fetchPrompt_begin_def)
next
  assume "wxAccount = Some a"
  then show "fetchPrompt_begin wxAccount = [Request (GetWxAccountPrompt (wxid a) (name a))]"
    by (simp add: fetchPrompt_begin_def)
qed

text \<open>The theorem on the path \<^verbatim>\<open>/employee/edit/bot\<close>, without and with an account.\<close>

theorem employee_edit_wxid_undefined_witness:
  "useParams ''/employee/edit/bot'' = Some [(''*'', ''employee/edit/bot''), (''name'', ''bot'')]
   \<and> param_wxid [(''*'', ''employee/edit/bot''), (''name'', ''bot'')] = None
   \<and> heading_name None (param_wxid [(''*'', ''employee/edit/bot''), (''name'', ''bot'')]) = None
   \<and> heading_name (Some sample_account) None = Some ''bot''
   \<and> fetchPrompt_begin (Some sample_account) = [Request (GetWxAccountPrompt ''wx1'' ''bot'')]"
  using employee_edit_wxid_undefined [of "''/employee/edit/bot''"
      "[(''*'', ''employee/edit/bot''), (''name'', ''bot'')]" None "''x''" sample_account None]
    employee_edit_wxid_undefined [of "''/employee/edit/bot''"
      "[(''*'', ''employee/edit/bot''), (''name'', ''bot'')]" "Some sample_account" "''x''"
      sample_account None]
    useParams_example
  by (simp add: sample_account_def)

section \<open>The guard of handleSendMessage\<close>

lemma trim_empty: "(trim s = []) = (\<forall>ch \<in> set s. js_whitespace ch)"
proof
  assume "trim s = []"
  then have all_rest: "\<forall>ch \<in> set (dropWhile js_whitespace s). js_whitespace ch"
    by (simp add: trim_def)
  have "dropWhile js_whitespace s = []"
  proof (rule ccontr)
    assume ne: "dropWhile js_whitespace s \<noteq> []"
    then have "\<not> js_whitespace (hd (dropWhile js_whitespace s))"
      by (rule hd_dropWhile)
    moreover have "hd (dropWhile js_whitespace s) \<in> set (dropWhile js_whitespace s)"
      using ne by (rule hd_in_set)
    ultimately show False
      using all_rest by blast
  qed
  then show "\<forall>ch \<in> set s. js_whitespace ch"
    by simp
next
  assume "\<forall>ch \<in> set s. js_whitespace ch"
  then show "trim s = []"
    by (auto simp: trim_def dest: set_dropWhileD)
qed

text \<open>
  C10. \<^verbatim>\<open>handleSendMessage\<close> issues no request and leaves the state as it is when the input
  is empty or holds whitespace only, when no conversation is selected, or when no
  account is selected. When the guard passes, the part that runs before the send is
  awaited clears the input, sets the loading flag and issues the send request, which
  carries the text as it was typed.
\<close>

theorem send_guard:
  "((\<forall>ch \<in> set (newMessage st). js_whitespace ch) \<or> conv = None \<or> acct = None \<longrightarrow>
      handleSendMessage_begin conv acct now st = (st, []))
   \<and> ((\<exists>ch \<in> set (newMessage st). \<not> js_whitespace ch) \<and> conv = Some c \<and> acct = Some a \<longrightarrow>
      handleSendMessage_begin conv acct now st
        = (st\<lparr>newMessage := [], isLoading := True\<rparr>,
           [Request (SendChatMessage (send_request_of c a (newMessage st) now))])
      \<and> newMessage (fst (handleSendMessage_begin conv acct now st)) = []
      \<and> conf_content (conf (send_request_of c a (newMessage st) now)) = newMessage st)"
proof (intro conjI impI)
  assume "(\<forall>ch \<in> set (newMessage st). js_whitespace ch) \<or> conv = None \<or> acct = None"
  then have "trim (newMessage st) = [] \<or> conv = None \<or> acct = None"
    by (simp add: trim_empty)
  then show "handleSendMessage_begin conv acct now st = (st, [])"
    by (auto simp: handleSendMessage_begin_def split: bool.splits option.splits)
next
  assume pass: "(\<exists>ch \<in> set (newMessage st). \<not> js_whitespace ch) \<and> conv = Some c \<and> acct = Some a"
  then have t: "trim (newMessage st) \<noteq> []"
    by (simp add: trim_empty)
  show b: "handleSendMessage_begin conv acct now st
        = (st\<lparr>newMessage := [], isLoading := True\<rparr>,
           [Request (SendChatMessage (send_request_of c a (newMessage st) now))])"
    using pass t by (simp add: handleSendMessage_begin_def split: bool.splits)
  show "newMessage (fst (handleSendMessage_begin conv acct now st)) = []"
    by (simp add: b)
  show "conf_content (conf (send_request_of c a (newMessage st) now)) = newMessage st"
    by (simp add: send_request_of_def Let_def)
qed

text \<open>
  The theorem on an input of a space, a tab and an ideographic space, and on the input
  \<^verbatim>\<open>hi\<close>.
\<close>

theorem send_guard_witness:
  "handleSendMessage_begin (Some (sample_room ''r'' (Num 0))) (Some sample_account) ''2024-01-01T00:00:00.000Z''
       (DialogPage_init\<lparr>newMessage := [0x20, 0x09, 0x3000]\<rparr>)
     = (DialogPage_init\<lparr>newMessage := [0x20, 0x09, 0x3000]\<rparr>, [])
   \<and> fst (handleSendMessage_begin (Some (sample_room ''r'' (Num 0))) (Some sample_account)
       ''2024-01-01T00:00:00.000Z'' (DialogPage_init\<lparr>newMessage := [0x68, 0x69]\<rparr>))
     = DialogPage_init\<lparr>newMessage := [], isLoading := True\<rparr>"
  using send_guard [of "DialogPage_init\<lparr>newMessage := [0x20, 0x09, 0x3000]\<rparr>"
      "Some (sample_room ''r'' (Num 0))" "Some sample_account" "''2024-01-01T00:00:00.000Z''"
      "sample_room ''r'' (Num 0)" sample_account]
    send_guard [of "DialogPage_init\<lparr>newMessage := [0x68, 0x69]\<rparr>"
      "Some (sample_room ''r'' (Num 0))" "Some sample_account" "''2024-01-01T00:00:00.000Z''"
      "sample_room ''r'' (Num 0)" sample_account]
  by (simp add: js_whitespace_def DialogPage_init_def)

section \<open>Polling the message count\<close>

lemma poll_effect_selected:
  "selectedAccount st = Some a \<Longrightarrow>
   poll_effect st
     = (st\<lparr>pollingInterval := True\<rparr>,
        [Request (GetUserMsgCount (name a)), SetInterval 3000 PollMessageCount])"
  by (simp add: poll_effect_def pollMessageCount_begin_def)

lemma Dialog_effects_unchanged:
  "selectedAccount new = selectedAccount old \<Longrightarrow> messageCount new = messageCount old \<Longrightarrow>
   Dialog_effects old new = (new, [])"
  by (simp add: Dialog_effects_def)

lemma Dialog_effects_count_changed:
  assumes "selectedAccount new = Some a" and "messageCount new \<noteq> messageCount old"
  shows "Dialog_effects old new
     = (new\<lparr>pollingInterval := True\<rparr>,
        poll_cleanup new
        @ [Request (GetUserMsgCount (name a)), SetInterval 3000 PollMessageCount]
        @ (if messageCount new \<noteq> [] then getConversations_begin (Some a) else []))"
  using assms by (simp add: Dialog_effects_def poll_effect_selected messageCount_effect_def)

lemma Dialog_effects_clears:
  assumes "pollingInterval new"
    and "selectedAccount new \<noteq> selectedAccount old \<or> messageCount new \<noteq> messageCount old"
  shows "\<exists>rest. snd (Dialog_effects old new) = ClearInterval # rest"
  using assms by (auto simp: Dialog_effects_def poll_cleanup_def split: prod.splits)

lemma poll_answer_changed:
  assumes "selectedAccount st = Some a" and "n \<noteq> messageCount st"
  shows "poll_answer st (Inr n)
     = (st\<lparr>messageCount := n, pollingInterval := True\<rparr>,
        poll_cleanup st
        @ [Request (GetUserMsgCount (name a)), SetInterval 3000 PollMessageCount]
        @ (if n \<noteq> [] then getConversations_begin (Some a) else []))"
proof -
  have r: "pollMessageCount_resume (messageCount st) st (Inr n) = (st\<lparr>messageCount := n\<rparr>, [])"
    using assms by (simp add: pollMessageCount_resume_def)
  have e: "Dialog_effects st (st\<lparr>messageCount := n\<rparr>)
     = (st\<lparr>messageCount := n, pollingInterval := True\<rparr>,
        poll_cleanup (st\<lparr>messageCount := n\<rparr>)
        @ [Request (GetUserMsgCount (name a)), SetInterval 3000 PollMessageCount]
        @ (if n \<noteq> [] then getConversations_begin (Some a) else []))"
    using assms Dialog_effects_count_changed [of "st\<lparr>messageCount := n\<rparr>" a st] by simp
  show ?thesis
    by (simp add: poll_answer_def r e poll_cleanup_def)
qed

lemma poll_answer_same: "poll_answer st (Inr (messageCount st)) = (st, [])"
  by (simp add: poll_answer_def pollMessageCount_resume_def Dialog_effects_unchanged)

lemma account_click_init:
  "account_click Dialog_init sample_account
     = (Dialog_init\<lparr>selectedAccount := Some sample_account, isLoadingConversations := True,
          conversations := [], pollingInterval := True\<rparr>,
        [Request (GetUserMsgCount ''bot''), SetInterval 3000 PollMessageCount])"
  by (simp add: account_click_def selectAccount_def Dialog_effects_def poll_effect_def poll_cleanup_def
      pollMessageCount_begin_def Dialog_init_def sample_account_def)

text \<open>
  C6 (amended). With an account selected, the polling effect asks for the account's
  message count at once and starts an interval of 3000 milliseconds whose task asks
  for it again. When the selection or the stored count changes while the ref holds a
  timer, the first thing the next render does is clear the interval. A poll that
  returns a count that differs from the stored one and is not empty stores it, clears
  and restarts the interval, and requests both room lists of the account; a poll that
  returns the stored count changes nothing and requests nothing.
\<close>

theorem polling_and_refetch:
  "(selectedAccount st = Some a \<longrightarrow>
      poll_effect st
        = (st\<lparr>pollingInterval := True\<rparr>,
           [Request (GetUserMsgCount (name a)), SetInterval 3000 PollMessageCount])
      \<and> run_task (selectedAccount st) PollMessageCount = [Request (GetUserMsgCount (name a))])
   \<and> (pollingInterval new \<and>
        (selectedAccount new \<noteq> selectedAccount old \<or> messageCount new \<noteq> messageCount old) \<longrightarrow>
        (\<exists>rest. snd (Dialog_effects old new) = ClearInterval # rest))
   \<and> (selectedAccount st = Some a \<and> n \<noteq> messageCount st \<and> n \<noteq> [] \<longrightarrow>
        poll_answer st (Inr n)
          = (st\<lparr>messageCount := n, pollingInterval := True\<rparr>,
             poll_cleanup st
             @ [Request (GetUserMsgCount (name a)), SetInterval 3000 PollMessageCount,
                Request (GetRoomListMessages (wxid a)), Request (GetRoomMpListMessages (wxid a))]))
   \<and> poll_answer st (Inr (messageCount st)) = (st, [])"
proof (intro conjI impI)
  assume sel: "selectedAccount st = Some a"
  show "poll_effect st
        = (st\<lparr>pollingInterval := True\<rparr>,
           [Request (GetUserMsgCount (name a)), SetInterval 3000 PollMessageCount])"
    by (rule poll_effect_selected [OF sel])
  show "run_task (selectedAccount st) PollMessageCount = [Request (GetUserMsgCount (name a))]"
    by (simp add: sel pollMessageCount_begin_def)
next
  assume "pollingInterval new \<and>
        (selectedAccount new \<noteq> selectedAccount old \<or> messageCount new \<noteq> messageCount old)"
  then show "\<exists>rest. snd (Dialog_effects old new) = ClearInterval # rest"
    using Dialog_effects_clears [of new old] by blast
next
  assume h: "selectedAccount st = Some a \<and> n \<noteq> messageCount st \<and> n \<noteq> []"
  then show "poll_answer st (Inr n)
          = (st\<lparr>messageCount := n, pollingInterval := True\<rparr>,
             poll_cleanup st
             @ [Request (GetUserMsgCount (name a)), SetInterval 3000 PollMessageCount,
                Request (GetRoomListMessages (wxid a)), Request (GetRoomMpListMessages (wxid a))])"
    using poll_answer_changed [of st a n] by (simp add: getConversations_begin_def)
next
  show "poll_answer st (Inr (messageCount st)) = (st, [])"
    by (rule poll_answer_same)
qed

text \<open>The theorem on the first poll after a click on an account, answered with 5.\<close>

theorem polling_and_refetch_witness:
  "snd (poll_answer (fst (account_click Dialog_init sample_account)) (Inr ''5''))
     = [ClearInterval, Request (GetUserMsgCount ''bot''), SetInterval 3000 PollMessageCount,
        Request (GetRoomListMessages ''wx1''), Request (GetRoomMpListMessages ''wx1'')]"
proof -
  let ?st = "fst (account_click Dialog_init sample_account)"
  have sel: "selectedAccount ?st = Some sample_account"
    by (simp add: account_click_init)
  have cnt: "''5'' \<noteq> messageCount ?st"
    by (simp add: account_click_init, simp add: Dialog_init_def)
  have timer: "pollingInterval ?st"
    by (simp add: account_click_init)
  have "poll_answer ?st (Inr ''5'')
          = (?st\<lparr>messageCount := ''5'', pollingInterval := True\<rparr>,
             poll_cleanup ?st
             @ [Request (GetUserMsgCount (name sample_account)), SetInterval 3000 PollMessageCount,
                Request (GetRoomListMessages (wxid sample_account)),
                Request (GetRoomMpListMessages (wxid sample_account))])"
    using polling_and_refetch [of ?st sample_account ?st Dialog_init "''5''"] sel cnt by simp
  then show ?thesis
    using timer by (simp add: poll_cleanup_def sample_account_def)
qed

text \<open>
  A new count that is the empty text is stored but fetches nothing: the effect that
  fetches the conversations runs only for a non-empty count. After the count 5, a poll
  answered with the empty text restarts the interval and requests no room list.
\<close>

theorem poll_empty_count_counterexample:
  "messageCount (fst (poll_answer (fst (account_click Dialog_init sample_account)) (Inr ''5''))) = ''5''
   \<and> snd (poll_answer
       (fst (poll_answer (fst (account_click Dialog_init sample_account)) (Inr ''5''))) (Inr ''''))
     = [ClearInterval, Request (GetUserMsgCount ''bot''), SetInterval 3000 PollMessageCount]"
  by (simp add: account_click_def selectAccount_def poll_answer_def pollMessageCount_resume_def
      Dialog_effects_def poll_effect_def poll_cleanup_def pollMessageCount_begin_def messageCount_effect_def
      getConversations_begin_def Dialog_init_def sample_account_def)

section \<open>The delayed refresh and the absence of retries\<close>

text \<open>
  C5. A send that succeeded schedules one timeout of 2000 milliseconds whose task
  requests the two histories of the room again, and nothing else. No fetch call site
  starts a request or a timer when its fetch fails: in the sources, the send, the
  delayed refresh, the three requests of \<^verbatim>\<open>loadMessages\<close>, the post of the AI switch, the
  conversations fetch, the account list, the message count poll (whose next attempt is
  the interval's, whatever the outcome), the prompt and the logout; and the call sites
  of the views outside the sources, as the spec describes them.
\<close>

theorem one_delayed_refetch_no_retry:
  "handleSendMessage_resume c a st (Inr ())
     = (st\<lparr>isSending := True, isLoading := False\<rparr>,
        [SetTimeout 2000 (RefreshMessages (wxid a) (room_id c))])
   \<and> run_task acct (RefreshMessages (wxid a) (room_id c)) = refresh_begin c a
   \<and> refresh_begin c a
       = [Request (GetChatMessages (wxid a) (room_id c)), Request (GetChatMpMessages (wxid a) (room_id c))]
   \<and> filter starts_work (snd (handleSendMessage_resume c a st (Inl e))) = []
   \<and> (Promise_all records1 records2 = Inl e \<longrightarrow>
        filter starts_work (snd (refresh_resume a st records1 records2)) = []
        \<and> filter starts_work (snd (loadMessages_history acct st records1 records2)) = [])
   \<and> filter starts_work (snd (loadMessages_ai c acct st (Inl e))) = []
   \<and> filter starts_work (snd (toggleAI_resume newAIEnabled st (Inl e))) = []
   \<and> (Promise_all rooms1 rooms2 = Inl e \<longrightarrow>
        filter starts_work (snd (getConversations_resume d rooms1 rooms2)) = [])
   \<and> filter starts_work (snd (fetchWxAccounts_resume d (Inl e))) = []
   \<and> filter starts_work (snd (poll_answer d (Inl e))) = []
   \<and> filter starts_work (snd (fetchPrompt_resume prompt (Inl e))) = []
   \<and> filter starts_work (handleLogout_resume (Inl e)) = []
   \<and> filter starts_work (snd (view_fetch_resume site view_state (Inl e))) = []"
proof (intro conjI impI)
  show "handleSendMessage_resume c a st (Inr ())
     = (st\<lparr>isSending := True, isLoading := False\<rparr>,
        [SetTimeout 2000 (RefreshMessages (wxid a) (room_id c))])"
    by (simp add: handleSendMessage_resume_def wxid_or_empty_def)
  show "run_task acct (RefreshMessages (wxid a) (room_id c)) = refresh_begin c a"
    by (simp add: refresh_begin_def history_requests_def wxid_or_empty_def)
  show "refresh_begin c a
       = [Request (GetChatMessages (wxid a) (room_id c)), Request (GetChatMpMessages (wxid a) (room_id c))]"
    by (simp add: refresh_begin_def history_requests_def wxid_or_empty_def)
  show "filter starts_work (snd (handleSendMessage_resume c a st (Inl e))) = []"
    by (simp add: handleSendMessage_resume_def)
  show "filter starts_work (snd (loadMessages_ai c acct st (Inl e))) = []"
    by (simp add: loadMessages_ai_def)
  show "filter starts_work (snd (toggleAI_resume newAIEnabled st (Inl e))) = []"
    by (simp add: toggleAI_resume_def)
  show "filter starts_work (snd (fetchWxAccounts_resume d (Inl e))) = []"
    by (simp add: fetchWxAccounts_resume_def)
  show "filter starts_work (snd (poll_answer d (Inl e))) = []"
    by (simp add: poll_answer_def pollMessageCount_resume_def Dialog_effects_def)
  show "filter starts_work (snd (fetchPrompt_resume prompt (Inl e))) = []"
    by (simp add: fetchPrompt_resume_def)
  show "filter starts_work (handleLogout_resume (Inl e)) = []"
    by (simp add: handleLogout_resume_def)
  show "filter starts_work (snd (view_fetch_resume site view_state (Inl e))) = []"
    by (simp add: view_fetch_resume_def)
next
  assume failed: "Promise_all records1 records2 = Inl e"
  show "filter starts_work (snd (refresh_resume a st records1 records2)) = []"
    by (simp add: refresh_resume_def failed)
  show "filter starts_work (snd (loadMessages_history acct st records1 records2)) = []"
    by (simp add: loadMessages_history_def failed)
next
  assume failed: "Promise_all rooms1 rooms2 = Inl e"
  show "filter starts_work (snd (getConversations_resume d rooms1 rooms2)) = []"
    by (simp add: getConversations_resume_def failed)
qed

text \<open>
  The theorem on a send that succeeds, on two fetches of the sources that fail, on a
  logout that fails and on a failing fetch of a view outside the sources that keeps a
  list of names.
\<close>

theorem one_delayed_refetch_no_retry_witness:
  "snd (handleSendMessage_resume (sample_room ''r'' (Num 0)) sample_account DialogPage_init (Inr ()))
     = [SetTimeout 2000 (RefreshMessages ''wx1'' ''r'')]
   \<and> snd (refresh_resume sample_account DialogPage_init (Inl (Js_error ''500'')) (Inr []))
     = [Console_error ''Error refreshing messages:'']
   \<and> snd (getConversations_resume Dialog_init (Inr []) (Inl (Js_error ''500'')))
     = [Console_error ''Error fetching conversations:'']
   \<and> handleLogout_resume (Inl (Js_error ''500'')) = [Console_error logout_failed_text]
   \<and> view_fetch_resume
       \<lparr>fallback_state = [], store_response = (\<lambda>names st. names), console_line = ''Failed to load:''\<rparr>
       [''old''] (Inl (Js_error ''500''))
     = ([] :: string list, [Console_error ''Failed to load:''])"
  using one_delayed_refetch_no_retry [of "sample_room ''r'' (Num 0)" sample_account DialogPage_init
      None "Js_error ''500''" "Inl (Js_error ''500'')" "Inr []" False "Inr []" "Inl (Js_error ''500'')"
      Dialog_init "[]"
      "\<lparr>fallback_state = [], store_response = (\<lambda>names st. names), console_line = ''Failed to load:''\<rparr>"
      "[''old'']"]
  by (simp add: refresh_resume_def getConversations_resume_def handleLogout_resume_def
      view_fetch_resume_def sample_room_def sample_account_def)

end
